theory Spec2Isabelle
  imports Complex_Main "HOL-Library.Word"
begin

unbundle bit_operations_syntax

section \<open>Machine types\<close>

type_synonym u8 = "8 word"
type_synonym u16 = "16 word"
type_synonym u32 = "32 word"
type_synonym u64 = "64 word"

text \<open>
  A \<^verbatim>\<open>const uint8_t*\<close> or \<^verbatim>\<open>const char*\<close>: the byte \<^verbatim>\<open>p[i]\<close> is \<open>p i\<close>. The code reads through
  raw pointers without bounds checks, and so does the model: which addresses are mapped
  is outside of it.
\<close>

type_synonym ptr = "nat \<Rightarrow> u8"

text \<open>The bytes of a buffer seen through a pointer to its start; bytes behind it read as 0.\<close>

definition ptr_of :: "u8 list \<Rightarrow> ptr" where
  "ptr_of xs = (\<lambda>i. if i < length xs then xs ! i else 0)"

text \<open>\<^verbatim>\<open>memcpy(dst, src, n)\<close> into an array \<open>dst\<close> of at least \<open>n\<close> bytes.\<close>

definition memcpy :: "u8 list \<Rightarrow> ptr \<Rightarrow> nat \<Rightarrow> u8 list" where
  "memcpy dst src n = map src [0..<n] @ drop n dst"

section \<open>Doubles\<close>

text \<open>
  A finite, non-negative IEEE-754 binary64 is modelled by its exact rational value. The
  only arithmetic the hot path does on doubles is \<^verbatim>\<open>raw * PRICE_MULTIPLIER\<close> with a
  \<^verbatim>\<open>uint32_t raw\<close>: the integer converts exactly (32 bits fit the 53-bit significand) and
  the product is rounded to nearest, ties to even. The product lies between \<open>2^-14\<close> and
  \<open>2^19\<close> or is zero, so neither overflow nor subnormals occur.
\<close>

type_synonym double = rat

fun bit_length :: "nat \<Rightarrow> nat" where
  "bit_length n = (if n = 0 then 0 else Suc (bit_length (n div 2)))"

declare bit_length.simps [simp del]

text \<open>\<open>m / 2^s\<close> rounded to the nearest integer, ties to even.\<close>

definition round_nearest_even :: "nat \<Rightarrow> nat \<Rightarrow> nat" where
  "round_nearest_even m s =
     (let q = m div 2 ^ s; r = m mod 2 ^ s
      in if 2 ^ s < 2 * r \<or> (2 * r = 2 ^ s \<and> odd q) then q + 1 else q)"

text \<open>A natural number rounded to 53 significant bits.\<close>

definition round53 :: "nat \<Rightarrow> nat" where
  "round53 p = (let s = bit_length p - 53 in round_nearest_even p s * 2 ^ s)"

text \<open>
  \<^verbatim>\<open>constexpr double PRICE_MULTIPLIER = 0.0001\<close>: the binary64 nearest to \<open>1/10000\<close> is
  \<^verbatim>\<open>0x1.a36e2eb1c432dp-14\<close>, that is \<open>0x1A36E2EB1C432D / 2^66\<close>.
\<close>

definition PRICE_MULTIPLIER_significand :: nat where
  "PRICE_MULTIPLIER_significand = 0x1A36E2EB1C432D"

definition PRICE_MULTIPLIER :: double where
  "PRICE_MULTIPLIER = of_nat PRICE_MULTIPLIER_significand / 2 ^ 66"

text \<open>\<^verbatim>\<open>raw * PRICE_MULTIPLIER\<close> in binary64.\<close>

definition mul_PRICE_MULTIPLIER :: "u32 \<Rightarrow> double" where
  "mul_PRICE_MULTIPLIER raw =
     of_nat (round53 (unat raw * PRICE_MULTIPLIER_significand)) / 2 ^ 66"

section \<open>The BBO record (bbo_data.h)\<close>

record BBODataFast =
  symbol :: "u8 list"
  bid_price :: double
  ask_price :: double
  bid_shares :: u32
  ask_shares :: u32
  spread :: double
  timestamp_ns :: u64
  sequence :: u32
  valid :: u8
  flags :: u8
  padding :: "u8 list"

text \<open>\<^verbatim>\<open>clear()\<close>: \<^verbatim>\<open>memset(this, 0, sizeof(*this))\<close>.\<close>

definition clear :: BBODataFast where
  "clear = \<lparr>symbol = replicate 8 0, bid_price = 0, ask_price = 0, bid_shares = 0,
     ask_shares = 0, spread = 0, timestamp_ns = 0, sequence = 0, valid = 0, flags = 0,
     padding = replicate 10 0\<rparr>"

text \<open>The loop \<^verbatim>\<open>for (size_t i = copy_len; i < 8; ++i) symbol[i] = ' '\<close>.\<close>

function set_symbol_pad :: "nat \<Rightarrow> u8 list \<Rightarrow> u8 list" where
  "set_symbol_pad i sy = (if i < 8 then set_symbol_pad (Suc i) (sy[i := 0x20]) else sy)"
  by pat_completeness auto
termination
  by (relation "measure (\<lambda>(i, sy). 8 - i)") auto

declare set_symbol_pad.simps [simp del]

definition set_symbol :: "BBODataFast \<Rightarrow> ptr \<Rightarrow> u64 \<Rightarrow> BBODataFast" where
  "set_symbol b sy len =
     (let copy_len = (if len < 8 then len else 8)
      in b\<lparr>symbol := set_symbol_pad (unat copy_len) (memcpy (symbol b) sy (unat copy_len))\<rparr>)"

text \<open>
  The loop \<^verbatim>\<open>while (len > 0 && (symbol[len-1] == ' ' || symbol[len-1] == '\0')) --len\<close>.
\<close>

function get_symbol_len :: "u8 list \<Rightarrow> nat \<Rightarrow> nat" where
  "get_symbol_len sy len =
     (if 0 < len \<and> (sy ! (len - 1) = 0x20 \<or> sy ! (len - 1) = 0)
      then get_symbol_len sy (len - 1) else len)"
  by pat_completeness auto
termination
  by (relation "measure (\<lambda>(sy, len). len)") auto

declare get_symbol_len.simps [simp del]

text \<open>\<^verbatim>\<open>get_symbol()\<close> returns \<^verbatim>\<open>std::string(symbol, len)\<close>.\<close>

definition get_symbol :: "BBODataFast \<Rightarrow> u8 list" where
  "get_symbol b = take (get_symbol_len (symbol b) 8) (symbol b)"

text \<open>The \<open>len\<close> bytes at \<open>sy\<close>: the byte string handed to \<^verbatim>\<open>set_symbol\<close>.\<close>

definition bytes_at :: "ptr \<Rightarrow> u64 \<Rightarrow> u8 list" where
  "bytes_at sy len = map sy [0..<unat len]"

text \<open>A byte string with its trailing spaces stripped, as the round-trip law words it.\<close>

definition strip_trailing_spaces :: "u8 list \<Rightarrow> u8 list" where
  "strip_trailing_spaces xs = rev (dropWhile (\<lambda>c. c = 0x20) (rev xs))"

text \<open>A byte string with its trailing spaces and NUL bytes stripped.\<close>

definition strip_trailing_spaces_nuls :: "u8 list \<Rightarrow> u8 list" where
  "strip_trailing_spaces_nuls xs = rev (dropWhile (\<lambda>c. c = 0x20 \<or> c = 0) (rev xs))"

text \<open>Flags for \<^verbatim>\<open>BBODataFast.flags\<close> (namespace \<^verbatim>\<open>BboFlags\<close>).\<close>

definition HAS_FPGA_TIMESTAMPS :: u8 where
  "HAS_FPGA_TIMESTAMPS = 0x01"

definition IS_SYNTHETIC :: u8 where
  "IS_SYNTHETIC = 0x02"

definition IS_STALE :: u8 where
  "IS_STALE = 0x04"

section \<open>The slot pool (bbo_pool.h)\<close>

text \<open>
  \<^verbatim>\<open>BBOPool<POOL_SIZE>\<close>: the storage \<^verbatim>\<open>pool_\<close> of \<^verbatim>\<open>POOL_SIZE\<close> records and the \<^verbatim>\<open>uint32_t\<close> counter
  \<^verbatim>\<open>head_\<close>. The template parameter \<^verbatim>\<open>POOL_SIZE\<close> (a \<^verbatim>\<open>size_t\<close>) is an argument of the
  operations. A pointer \<^verbatim>\<open>&pool_[idx]\<close> into the storage is the index \<open>idx\<close>. A name cannot end
  in an underscore here, so the member \<^verbatim>\<open>x_\<close> of a class is written \<open>x_m\<close>.
\<close>

record BBOPool =
  pool_m :: "BBODataFast list"
  using_hugepages_m :: bool
  head_m :: u32

text \<open>
  The constructor: \<^verbatim>\<open>allocate_pool()\<close>, whose mapping succeeds with huge pages or not, then
  \<^verbatim>\<open>prefault_pool()\<close>, which clears every slot; \<^verbatim>\<open>head_\<close> starts at 0.
\<close>

definition BBOPool_new :: "nat \<Rightarrow> bool \<Rightarrow> BBOPool" where
  "BBOPool_new POOL_SIZE hugepages =
     \<lparr>pool_m = replicate POOL_SIZE clear, using_hugepages_m = hugepages, head_m = 0\<rparr>"

text \<open>
  \<^verbatim>\<open>uint32_t idx = head_.fetch_add(1) & (POOL_SIZE - 1)\<close>: the old counter is widened to
  \<^verbatim>\<open>size_t\<close> for the mask and the result narrowed to \<^verbatim>\<open>uint32_t\<close>.
\<close>

definition acquire :: "nat \<Rightarrow> BBOPool \<Rightarrow> nat \<times> BBOPool" where
  "acquire POOL_SIZE p =
     (let idx = (ucast ((ucast (head_m p) :: u64) AND (of_nat POOL_SIZE - 1)) :: u32)
      in (unat idx, p\<lparr>head_m := head_m p + 1\<rparr>))"

definition current_head :: "BBOPool \<Rightarrow> u32" where
  "current_head p = head_m p"

text \<open>The pool after \<open>n\<close> further calls of \<^verbatim>\<open>acquire\<close>.\<close>

fun acquire_times :: "nat \<Rightarrow> nat \<Rightarrow> BBOPool \<Rightarrow> BBOPool" where
  "acquire_times POOL_SIZE 0 p = p"
| "acquire_times POOL_SIZE (Suc n) p = acquire_times POOL_SIZE n (snd (acquire POOL_SIZE p))"

section \<open>The wire parser (bbo_parser_fast.h)\<close>

definition BBO_MIN_SIZE :: u64 where
  "BBO_MIN_SIZE = 28"

definition BBO_FULL_SIZE :: u64 where
  "BBO_FULL_SIZE = 44"

definition SYMBOL_OFFSET :: nat where
  "SYMBOL_OFFSET = 0"

definition BID_PRICE_OFFSET :: nat where
  "BID_PRICE_OFFSET = 8"

text \<open>
  A \<^verbatim>\<open>uint16_t\<close> or \<^verbatim>\<open>uint32_t\<close> read through a cast pointer on the little-endian host (the
  code is x86-64: it reads the cycle counter with \<^verbatim>\<open>rdtsc\<close>), and the byte swaps
  \<^verbatim>\<open>__builtin_bswap32\<close> and \<^verbatim>\<open>__builtin_bswap16\<close>.
\<close>

definition load_u16 :: "ptr \<Rightarrow> nat \<Rightarrow> u16" where
  "load_u16 p off = ucast (p off) OR push_bit 8 (ucast (p (off + 1)))"

definition load_u32 :: "ptr \<Rightarrow> nat \<Rightarrow> u32" where
  "load_u32 p off =
     ucast (p off) OR push_bit 8 (ucast (p (off + 1)))
       OR push_bit 16 (ucast (p (off + 2))) OR push_bit 24 (ucast (p (off + 3)))"

definition bswap16 :: "u16 \<Rightarrow> u16" where
  "bswap16 x = push_bit 8 x OR drop_bit 8 x"

definition bswap32 :: "u32 \<Rightarrow> u32" where
  "bswap32 x =
     push_bit 24 x OR push_bit 8 (x AND 0xFF00) OR (drop_bit 8 x AND 0xFF00) OR drop_bit 24 x"

text \<open>
  \<^verbatim>\<open>BBOParserFast::parse(data, len, pool, ts_ns, sequence)\<close>. The result is the null sentinel
  (\<open>None\<close>) or the acquired slot (\<open>Some idx\<close>), with the pool as the call leaves it.
\<close>

definition parse :: "nat \<Rightarrow> ptr \<Rightarrow> u64 \<Rightarrow> BBOPool \<Rightarrow> u64 \<Rightarrow> u32 \<Rightarrow> nat option \<times> BBOPool" where
  "parse POOL_SIZE data len pool ts_ns sequence_no =
     (if len < BBO_MIN_SIZE then (None, pool)
      else
        let (idx, pool1) = acquire POOL_SIZE pool;
            bbo = pool_m pool1 ! idx;
            bbo = bbo\<lparr>symbol := memcpy (symbol bbo) (\<lambda>i. data (SYMBOL_OFFSET + i)) 8\<rparr>;
            prices = (\<lambda>k. load_u32 data (BID_PRICE_OFFSET + 4 * k));
            bid_raw = bswap32 (prices 0);
            bid_shares' = bswap32 (prices 1);
            ask_raw = bswap32 (prices 2);
            ask_shares' = bswap32 (prices 3);
            spread_raw = bswap32 (prices 4);
            bbo = bbo\<lparr>bid_price := mul_PRICE_MULTIPLIER bid_raw\<rparr>;
            bbo = bbo\<lparr>ask_price := mul_PRICE_MULTIPLIER ask_raw\<rparr>;
            bbo = bbo\<lparr>spread := mul_PRICE_MULTIPLIER spread_raw\<rparr>;
            bbo = bbo\<lparr>bid_shares := bid_shares'\<rparr>;
            bbo = bbo\<lparr>ask_shares := ask_shares'\<rparr>;
            bbo = bbo\<lparr>timestamp_ns := ts_ns\<rparr>;
            bbo = bbo\<lparr>sequence := sequence_no\<rparr>;
            bbo = bbo\<lparr>valid := 1\<rparr>;
            bbo = (if BBO_FULL_SIZE \<le> len then bbo\<lparr>flags := HAS_FPGA_TIMESTAMPS\<rparr>
                   else bbo\<lparr>flags := 0\<rparr>)
        in (Some idx, pool1\<lparr>pool_m := (pool_m pool1)[idx := bbo]\<rparr>))"

text \<open>
  The record behind the pointer a \<^verbatim>\<open>parse\<close> returns, read in the pool the call leaves: \<open>None\<close>
  for the null sentinel.
\<close>

definition deref :: "nat option \<times> BBOPool \<Rightarrow> BBODataFast option" where
  "deref r =
     (case fst r of
        None \<Rightarrow> None
      | Some idx \<Rightarrow> if idx < length (pool_m (snd r)) then Some (pool_m (snd r) ! idx) else None)"

section \<open>The consumer's record and ring\<close>

text \<open>
  Modelled from the spec: \<^verbatim>\<open>gateway::BBOData\<close> (\<^verbatim>\<open>common/bbo_data.h\<close>) is not under src/. The
  record has the fields \<^verbatim>\<open>convert_and_publish\<close> assigns, under the prefix \<open>gw_\<close>; the spec
  gives the consumer's symbol field 16 bytes (\<^verbatim>\<open>SYMBOL_MAX_LEN\<close>), four 32-bit cycle counts and
  three microsecond deltas.
\<close>

definition SYMBOL_MAX_LEN :: nat where
  "SYMBOL_MAX_LEN = 16"

record gateway_BBOData =
  gw_symbol :: "u8 list"
  gw_bid_price :: double
  gw_ask_price :: double
  gw_bid_shares :: u32
  gw_ask_shares :: u32
  gw_spread :: double
  gw_timestamp_ns :: u64
  gw_valid :: bool
  gw_fpga_ts_t1 :: u32
  gw_fpga_ts_t2 :: u32
  gw_fpga_ts_t3 :: u32
  gw_fpga_ts_t4 :: u32
  gw_fpga_latency_a_us :: double
  gw_fpga_latency_b_us :: double
  gw_fpga_latency_us :: double
  gw_fpga_rx_timestamp :: u64
  gw_fpga_tx_timestamp :: u64

text \<open>
  Modelled from the spec: \<^verbatim>\<open>disruptor::BboRingBuffer\<close> is not under src/. The spec describes
  a bounded ring with a single non-blocking \<^verbatim>\<open>try_publish(record)\<close> that returns false when
  the ring is full. The receiver below takes \<^verbatim>\<open>try_publish\<close> as a parameter; this ring is the
  instance the concrete examples run on.
\<close>

record BboRingBuffer =
  ring_records :: "gateway_BBOData list"
  ring_capacity :: nat

definition try_publish :: "BboRingBuffer \<Rightarrow> gateway_BBOData \<Rightarrow> bool \<times> BboRingBuffer" where
  "try_publish r x =
     (if length (ring_records r) < ring_capacity r
      then (True, r\<lparr>ring_records := ring_records r @ [x]\<rparr>)
      else (False, r))"

section \<open>The receive engine (dpdk_receiver.h, dpdk_receiver.cpp)\<close>

record Config =
  port_id :: u16
  queue_id :: u16
  udp_port :: u16
  lcore_id :: int
  shm_name :: string
  enable_stats :: bool

record Stats =
  packets_received :: u64
  packets_processed :: u64
  packets_dropped :: u64
  parse_errors :: u64
  ring_buffer_full :: u64

text \<open>
  The members of \<^verbatim>\<open>DPDKReceiver\<close> that the packet path reads or writes; \<open>'r\<close> is the ring
  behind \<^verbatim>\<open>ring_buffer_\<close>. The pool is a \<^verbatim>\<open>BBOPool<1024>\<close>.
\<close>

record 'r DPDKReceiver =
  config_m :: Config
  stats_m :: Stats
  bbo_pool_m :: BBOPool
  ring_buffer_m :: 'r
  sequence_m :: u32

definition RECEIVER_POOL_SIZE :: nat where
  "RECEIVER_POOL_SIZE = 1024"

text \<open>
  Modelled from the spec: the DPDK and libc declarations the header walk uses are not under
  src/. The spec walks Ethernet, then IPv4 at the byte after Ethernet, then UDP at
  \<open>ip + ihl\<close>, with the payload at the UDP header + 8; the field offsets are those of the
  wire formats that \<^verbatim>\<open>rte_ether_hdr\<close> (14 bytes, \<^verbatim>\<open>ether_type\<close> at 12), \<^verbatim>\<open>rte_ipv4_hdr\<close>
  (20 bytes, \<^verbatim>\<open>version_ihl\<close> at 0, \<^verbatim>\<open>total_length\<close> at 2, \<^verbatim>\<open>next_proto_id\<close> at 9) and
  \<^verbatim>\<open>rte_udp_hdr\<close> (8 bytes, \<^verbatim>\<open>dst_port\<close> at 2, \<^verbatim>\<open>dgram_len\<close> at 4) lay out.
  \<^verbatim>\<open>RTE_ETHER_TYPE_IPV4\<close> is 0x0800, \<^verbatim>\<open>IPPROTO_UDP\<close> is 17, and on the little-endian host
  \<^verbatim>\<open>rte_cpu_to_be_16\<close> and \<^verbatim>\<open>rte_be_to_cpu_16\<close> are the 16-bit byte swap.
\<close>

definition ETH_SIZE :: nat where
  "ETH_SIZE = 14"

definition IP_SIZE :: nat where
  "IP_SIZE = 20"

definition UDP_SIZE :: nat where
  "UDP_SIZE = 8"

definition RTE_ETHER_TYPE_IPV4 :: u16 where
  "RTE_ETHER_TYPE_IPV4 = 0x0800"

definition IPPROTO_UDP :: u8 where
  "IPPROTO_UDP = 17"

definition rte_cpu_to_be_16 :: "u16 \<Rightarrow> u16" where
  "rte_cpu_to_be_16 x = bswap16 x"

definition rte_be_to_cpu_16 :: "u16 \<Rightarrow> u16" where
  "rte_be_to_cpu_16 x = bswap16 x"

definition ether_type :: "ptr \<Rightarrow> u16" where
  "ether_type pkt = load_u16 pkt 12"

definition next_proto_id :: "ptr \<Rightarrow> u8" where
  "next_proto_id pkt = pkt (ETH_SIZE + 9)"

definition version_ihl :: "ptr \<Rightarrow> u8" where
  "version_ihl pkt = pkt ETH_SIZE"

text \<open>The offset of the UDP header: \<^verbatim>\<open>uint8_t ihl = (ip->version_ihl & 0x0F) * 4\<close> past the IP header's start.\<close>

definition udp_offset :: "ptr \<Rightarrow> nat" where
  "udp_offset pkt = ETH_SIZE + unat ((version_ihl pkt AND 0x0F) * 4)"

definition dst_port :: "ptr \<Rightarrow> u16" where
  "dst_port pkt = load_u16 pkt (udp_offset pkt + 2)"

definition dgram_len :: "ptr \<Rightarrow> u16" where
  "dgram_len pkt = load_u16 pkt (udp_offset pkt + 4)"

text \<open>
  \<^verbatim>\<open>payload = (uint8_t*)(udp + 1)\<close> and
  \<^verbatim>\<open>size_t payload_len = rte_be_to_cpu_16(udp->dgram_len) - sizeof(rte_udp_hdr)\<close>: the 16-bit
  length is widened to \<^verbatim>\<open>size_t\<close> and the subtraction is unsigned, modulo \<open>2^64\<close>.
\<close>

definition payload :: "ptr \<Rightarrow> ptr" where
  "payload pkt = (\<lambda>i. pkt (udp_offset pkt + UDP_SIZE + i))"

definition payload_len :: "ptr \<Rightarrow> u64" where
  "payload_len pkt = (ucast (rte_be_to_cpu_16 (dgram_len pkt)) :: u64) - of_nat UDP_SIZE"

text \<open>The 16-bit big-endian field at an offset of a frame, as it stands on the wire.\<close>

definition be16 :: "ptr \<Rightarrow> nat \<Rightarrow> u16" where
  "be16 p off = push_bit 8 (ucast (p off)) OR ucast (p (off + 1))"

text \<open>The loop \<^verbatim>\<open>for (size_t i = 8; i < SYMBOL_MAX_LEN; ++i) bbo.symbol[i] = ' '\<close>.\<close>

function convert_pad :: "nat \<Rightarrow> u8 list \<Rightarrow> u8 list" where
  "convert_pad i sy = (if i < SYMBOL_MAX_LEN then convert_pad (Suc i) (sy[i := 0x20]) else sy)"
  by pat_completeness auto
termination
  by (relation "measure (\<lambda>(i, sy). SYMBOL_MAX_LEN - i)") auto

declare convert_pad.simps [simp del]

text \<open>
  The record \<^verbatim>\<open>convert_and_publish\<close> builds before it publishes. The local
  \<^verbatim>\<open>gateway::BBOData bbo\<close> starts with a symbol array of \<^verbatim>\<open>SYMBOL_MAX_LEN\<close> bytes, every one
  of which the code then writes.
\<close>

definition convert :: "BBODataFast \<Rightarrow> gateway_BBOData" where
  "convert fast =
     (let sy = memcpy (replicate SYMBOL_MAX_LEN 0) (ptr_of (symbol fast)) 8;
          sy = convert_pad 8 sy;
          sy = sy[SYMBOL_MAX_LEN - 1 := 0]
      in \<lparr>gw_symbol = sy,
          gw_bid_price = bid_price fast,
          gw_ask_price = ask_price fast,
          gw_bid_shares = bid_shares fast,
          gw_ask_shares = ask_shares fast,
          gw_spread = spread fast,
          gw_timestamp_ns = timestamp_ns fast,
          gw_valid = (valid fast \<noteq> 0),
          gw_fpga_ts_t1 = 0, gw_fpga_ts_t2 = 0, gw_fpga_ts_t3 = 0, gw_fpga_ts_t4 = 0,
          gw_fpga_latency_a_us = 0, gw_fpga_latency_b_us = 0, gw_fpga_latency_us = 0,
          gw_fpga_rx_timestamp = 0, gw_fpga_tx_timestamp = 0\<rparr>)"

text \<open>
  \<^verbatim>\<open>void DPDKReceiver::convert_and_publish(const BBODataFast& fast)\<close>, with the ring's
  \<^verbatim>\<open>try_publish\<close> as the parameter \<open>tp\<close>. The function returns nothing: its effect is the
  new state of the receiver.
\<close>

definition convert_and_publish ::
  "('r \<Rightarrow> gateway_BBOData \<Rightarrow> bool \<times> 'r) \<Rightarrow> BBODataFast \<Rightarrow> 'r DPDKReceiver \<Rightarrow> 'r DPDKReceiver" where
  "convert_and_publish tp fast st =
     (let bbo = convert fast;
          (published, ring) = tp (ring_buffer_m st) bbo;
          st = st\<lparr>ring_buffer_m := ring\<rparr>
      in if \<not> published
         then (if enable_stats (config_m st)
               then st\<lparr>stats_m := (stats_m st)\<lparr>ring_buffer_full := ring_buffer_full (stats_m st) + 1\<rparr>\<rparr>
               else st)
         else st)"

text \<open>
  \<^verbatim>\<open>DPDKReceiver::process_packet(pkt)\<close> on the frame bytes \<open>pkt\<close>. The reception timestamp
  \<open>ts_ns\<close>, which the code takes from \<^verbatim>\<open>rdtsc()\<close> and converts with the calibrated clock, is
  an input.
\<close>

definition process_packet ::
  "('r \<Rightarrow> gateway_BBOData \<Rightarrow> bool \<times> 'r) \<Rightarrow> u64 \<Rightarrow> ptr \<Rightarrow> 'r DPDKReceiver \<Rightarrow> 'r DPDKReceiver" where
  "process_packet tp ts_ns pkt st =
     (if ether_type pkt \<noteq> rte_cpu_to_be_16 RTE_ETHER_TYPE_IPV4 then st
      else if next_proto_id pkt \<noteq> IPPROTO_UDP then st
      else if rte_be_to_cpu_16 (dst_port pkt) \<noteq> udp_port (config_m st) then st
      else
        let st = (if enable_stats (config_m st)
                  then st\<lparr>stats_m := (stats_m st)\<lparr>packets_received := packets_received (stats_m st) + 1\<rparr>\<rparr>
                  else st);
            sequence_no = sequence_m st;
            st = st\<lparr>sequence_m := sequence_m st + 1\<rparr>;
            (bbo, pool) = parse RECEIVER_POOL_SIZE (payload pkt) (payload_len pkt)
                            (bbo_pool_m st) ts_ns sequence_no;
            st = st\<lparr>bbo_pool_m := pool\<rparr>
        in case bbo of
             Some idx \<Rightarrow>
               let st = convert_and_publish tp (pool_m (bbo_pool_m st) ! idx) st
               in if enable_stats (config_m st)
                  then st\<lparr>stats_m := (stats_m st)\<lparr>packets_processed := packets_processed (stats_m st) + 1\<rparr>\<rparr>
                  else st
           | None \<Rightarrow>
               if enable_stats (config_m st)
               then st\<lparr>stats_m := (stats_m st)\<lparr>parse_errors := parse_errors (stats_m st) + 1\<rparr>\<rparr>
               else st)"

text \<open>The defaults of \<^verbatim>\<open>DPDKReceiver::Config\<close>.\<close>

definition Config_default :: Config where
  "Config_default =
     \<lparr>port_id = 0, queue_id = 0, udp_port = 12345, lcore_id = - 1, shm_name = ''gateway'',
      enable_stats = True\<rparr>"

text \<open>
  The receiver after construction and \<^verbatim>\<open>initialize\<close>: the counters and \<^verbatim>\<open>sequence_\<close> are 0,
  the pool is fresh, and \<^verbatim>\<open>ring_buffer_\<close> is the ring that \<^verbatim>\<open>init_shared_memory\<close> mapped.
\<close>

definition DPDKReceiver_new :: "Config \<Rightarrow> bool \<Rightarrow> 'r \<Rightarrow> 'r DPDKReceiver" where
  "DPDKReceiver_new cfg hugepages ring =
     \<lparr>config_m = cfg,
      stats_m = \<lparr>packets_received = 0, packets_processed = 0, packets_dropped = 0,
                 parse_errors = 0, ring_buffer_full = 0\<rparr>,
      bbo_pool_m = BBOPool_new RECEIVER_POOL_SIZE hugepages,
      ring_buffer_m = ring,
      sequence_m = 0\<rparr>"

text \<open>Stores of a \<^verbatim>\<open>uint16_t\<close> and a \<^verbatim>\<open>uint32_t\<close> into a byte buffer on the little-endian host.\<close>

definition store_u16 :: "u8 list \<Rightarrow> nat \<Rightarrow> u16 \<Rightarrow> u8 list" where
  "store_u16 data off v = data[off := ucast v, off + 1 := ucast (drop_bit 8 v)]"

definition store_u32 :: "u8 list \<Rightarrow> nat \<Rightarrow> u32 \<Rightarrow> u8 list" where
  "store_u32 data off v =
     data[off := ucast v, off + 1 := ucast (drop_bit 8 v),
          off + 2 := ucast (drop_bit 16 v), off + 3 := ucast (drop_bit 24 v)]"

text \<open>\<^verbatim>\<open>memcpy(data + off, src, length src)\<close> into a byte buffer.\<close>

definition store_bytes :: "u8 list \<Rightarrow> nat \<Rightarrow> u8 list \<Rightarrow> u8 list" where
  "store_bytes data off src = take off data @ src @ drop (off + length src) data"

definition BBO_SIZE :: nat where
  "BBO_SIZE = 44"

definition TOTAL_SIZE :: nat where
  "TOTAL_SIZE = ETH_SIZE + IP_SIZE + UDP_SIZE + BBO_SIZE"

text \<open>
  \<^verbatim>\<open>DPDKReceiver::create_dummy_packet()\<close>: the \<^verbatim>\<open>TOTAL_SIZE\<close> bytes of the frame, or \<open>None\<close> where
  the code returns \<^verbatim>\<open>nullptr\<close> because the buffer could not be allocated or extended
  (\<open>allocated\<close> says that both \<^verbatim>\<open>rte_pktmbuf_alloc\<close> and \<^verbatim>\<open>rte_pktmbuf_append\<close> succeed).
\<close>

definition create_dummy_packet :: "Config \<Rightarrow> bool \<Rightarrow> u8 list option" where
  "create_dummy_packet cfg allocated =
     (if \<not> allocated then None
      else
        let data = replicate TOTAL_SIZE 0;
            data = store_u16 data 12 (rte_cpu_to_be_16 RTE_ETHER_TYPE_IPV4);
            data = data[ETH_SIZE := 0x45];
            data = store_u16 data (ETH_SIZE + 2) (rte_cpu_to_be_16 (of_nat (IP_SIZE + UDP_SIZE + BBO_SIZE)));
            data = data[ETH_SIZE + 9 := IPPROTO_UDP];
            data = store_u16 data (ETH_SIZE + IP_SIZE + 2) (rte_cpu_to_be_16 (udp_port cfg));
            data = store_u16 data (ETH_SIZE + IP_SIZE + 4) (rte_cpu_to_be_16 (of_nat (UDP_SIZE + BBO_SIZE)));
            bbo = ETH_SIZE + IP_SIZE + UDP_SIZE;
            data = store_bytes data bbo (map of_char ''WARMUP  '');
            price = bswap32 1500000;
            shares = bswap32 100;
            spread' = bswap32 1000;
            data = store_u32 data (bbo + 8) price;
            data = store_u32 data (bbo + 12) shares;
            data = store_u32 data (bbo + 16) price;
            data = store_u32 data (bbo + 20) shares;
            data = store_u32 data (bbo + 24) spread'
        in Some data)"

text \<open>
  \<^verbatim>\<open>DPDKReceiver::warm_dpdk_path(count)\<close>: one list element per iteration, holding whether the
  dummy packet could be allocated and the timestamp \<^verbatim>\<open>process_packet\<close> reads.
\<close>

fun warm_dpdk_path ::
  "('r \<Rightarrow> gateway_BBOData \<Rightarrow> bool \<times> 'r) \<Rightarrow> (bool \<times> u64) list \<Rightarrow> 'r DPDKReceiver \<Rightarrow> 'r DPDKReceiver" where
  "warm_dpdk_path tp [] st = st"
| "warm_dpdk_path tp ((allocated, ts_ns) # rest) st =
     warm_dpdk_path tp rest
       (case create_dummy_packet (config_m st) allocated of
          Some dummy \<Rightarrow> process_packet tp ts_ns (ptr_of dummy) st
        | None \<Rightarrow> st)"

section \<open>Frames for the concrete examples\<close>

text \<open>
  An Ethernet frame with the given ethertype bytes, a 20-byte IPv4 header carrying protocol
  17 (UDP), a UDP header with the given destination port and datagram length bytes, and
  the given bytes behind the UDP header.
\<close>

definition example_frame :: "u8 \<Rightarrow> u8 \<Rightarrow> u8 \<Rightarrow> u8 \<Rightarrow> u8 \<Rightarrow> u8 \<Rightarrow> u8 list \<Rightarrow> u8 list" where
  "example_frame et_hi et_lo port_hi port_lo len_hi len_lo body =
     [0, 0, 0, 0, 0, 0, 0, 0, 0, 0, 0, 0, et_hi, et_lo,
      0x45, 0, 0, 0, 0, 0, 0, 0, 64, 17, 0, 0, 10, 0, 0, 1, 10, 0, 0, 2,
      0x30, 0x39, port_hi, port_lo, len_hi, len_lo, 0, 0] @ body"

text \<open>What a pointer to 44 bytes \<^verbatim>\<open>'A'\<close> reads when every byte behind them is \<open>t\<close>.\<close>

definition example_payload :: "u8 \<Rightarrow> ptr" where
  "example_payload t = (\<lambda>i. if i < 44 then 0x41 else t)"

text \<open>The 28-byte payload of the "minimal parse" scenario.\<close>

definition minimal_payload :: "u8 list" where
  "minimal_payload =
     [0x41, 0x41, 0x50, 0x4C, 0x20, 0x20, 0x20, 0x20,
      0x00, 0x16, 0xE3, 0x60, 0x00, 0x00, 0x00, 0x64,
      0x00, 0x16, 0xE5, 0xA0, 0x00, 0x00, 0x00, 0x64,
      0x00, 0x00, 0x27, 0x10]"

section \<open>Symbol helpers\<close>

lemma length_set_symbol_pad: "length (set_symbol_pad i sy) = length sy"
  by (induction i sy rule: set_symbol_pad.induct) (subst set_symbol_pad.simps, simp)

lemma set_symbol_pad_eq:
  "i \<le> 8 \<Longrightarrow> length sy = 8 \<Longrightarrow> set_symbol_pad i sy = take i sy @ replicate (8 - i) 0x20"
proof (induction i sy rule: set_symbol_pad.induct)
  case (1 i sy)
  show ?case
  proof (cases "i < 8")
    case True
    have "set_symbol_pad i sy = set_symbol_pad (Suc i) (sy[i := 0x20])"
      using True by (subst set_symbol_pad.simps) simp
    also have "\<dots> = take (Suc i) (sy[i := 0x20]) @ replicate (8 - Suc i) 0x20"
      using True "1.prems" by (intro "1.IH") simp_all
    also have "take (Suc i) (sy[i := 0x20]) = take i sy @ [0x20]"
      using True "1.prems" by (simp add: take_Suc_conv_app_nth)
    also have "(take i sy @ [0x20]) @ replicate (8 - Suc i) 0x20
        = take i sy @ replicate (8 - i) 0x20"
    proof -
      from True have "8 - i = Suc (8 - Suc i)" by simp
      then show ?thesis by (simp add: replicate_append_same)
    qed
    finally show ?thesis .
  next
    case False
    with "1.prems" have "i = 8" by simp
    then show ?thesis using "1.prems" by (subst set_symbol_pad.simps) simp
  qed
qed

lemma get_symbol_len_eq:
  "n \<le> length sy \<Longrightarrow>
   get_symbol_len sy n = length (strip_trailing_spaces_nuls (take n sy))"
proof (induction n)
  case 0
  then show ?case
    by (subst get_symbol_len.simps) (simp add: strip_trailing_spaces_nuls_def)
next
  case (Suc n)
  then have tk: "take (Suc n) sy = take n sy @ [sy ! n]"
    by (simp add: take_Suc_conv_app_nth)
  show ?case
  proof (cases "sy ! n = 0x20 \<or> sy ! n = 0")
    case True
    then have "get_symbol_len sy (Suc n) = get_symbol_len sy n"
      by (subst get_symbol_len.simps) simp
    then show ?thesis
      using Suc True by (auto simp: tk strip_trailing_spaces_nuls_def)
  next
    case False
    then have "get_symbol_len sy (Suc n) = Suc n"
      by (subst get_symbol_len.simps) simp
    then show ?thesis
      using Suc False by (simp add: tk strip_trailing_spaces_nuls_def)
  qed
qed

lemma take_strip_trailing:
  "take (length (strip_trailing_spaces_nuls xs)) xs = strip_trailing_spaces_nuls xs"
proof -
  have "rev (takeWhile (\<lambda>c. c = 0x20 \<or> c = 0) (rev xs)
      @ dropWhile (\<lambda>c. c = 0x20 \<or> c = 0) (rev xs)) = xs"
    by simp
  then have "xs = strip_trailing_spaces_nuls xs
      @ rev (takeWhile (\<lambda>c. c = 0x20 \<or> c = 0) (rev xs))"
    by (simp only: rev_append strip_trailing_spaces_nuls_def)
  then show ?thesis
    by (metis append_eq_conv_conj)
qed

lemma dropWhile_pad:
  "dropWhile (\<lambda>c. c = 0x20 \<or> c = (0::u8)) (replicate k 0x20 @ ys)
     = dropWhile (\<lambda>c. c = 0x20 \<or> c = 0) ys"
  by (induction k) simp_all

lemma strip_trailing_pad:
  "strip_trailing_spaces_nuls (xs @ replicate k 0x20) = strip_trailing_spaces_nuls xs"
  by (simp add: strip_trailing_spaces_nuls_def dropWhile_pad)

lemma take_upt_min: "take k [0..<n] = [0..<min n k]"
  by (cases "k \<le> n") (simp_all add: min_def)

lemma get_symbol_strip:
  "length (symbol b) = 8 \<Longrightarrow> get_symbol b = strip_trailing_spaces_nuls (symbol b)"
  using get_symbol_len_eq [of 8 "symbol b"] take_strip_trailing [of "symbol b"]
  by (simp add: get_symbol_def)

lemma symbol_set_symbol:
  "length (symbol b) = 8 \<Longrightarrow>
   symbol (set_symbol b sy len)
     = take 8 (bytes_at sy len) @ replicate (8 - length (take 8 (bytes_at sy len))) 0x20"
proof -
  assume len8: "length (symbol b) = 8"
  define n where "n = unat (if len < 8 then len else 8)"
  have n8: "n \<le> 8" and nmin: "n = min (unat len) 8"
    by (auto simp: n_def word_less_nat_alt not_less word_le_nat_alt)
  have "symbol (set_symbol b sy len) = set_symbol_pad n (memcpy (symbol b) sy n)"
    by (simp add: set_symbol_def n_def Let_def)
  also have "\<dots> = take n (memcpy (symbol b) sy n) @ replicate (8 - n) 0x20"
    using n8 len8 by (intro set_symbol_pad_eq) (simp_all add: memcpy_def)
  also have "take n (memcpy (symbol b) sy n) = map sy [0..<n]"
    by (simp add: memcpy_def)
  also have "map sy [0..<n] = take 8 (bytes_at sy len)"
    by (simp add: bytes_at_def nmin take_map take_upt_min)
  finally show ?thesis
    by (simp add: nmin bytes_at_def min.commute)
qed

section \<open>Pool helpers\<close>

lemma acquire_snd: "snd (acquire N p) = p\<lparr>head_m := head_m p + 1\<rparr>"
  by (simp add: acquire_def Let_def)

lemma acquire_fst_le: "fst (acquire N p) \<le> unat (of_nat N - 1 :: u64)"
proof -
  have "unat (ucast ((ucast (head_m p) :: u64) AND (of_nat N - 1)) :: u32)
      = take_bit 32 (unat ((ucast (head_m p) :: u64) AND (of_nat N - 1)))"
    by (simp only: unsigned_ucast_eq len_of_numeral_defs) simp
  also have "\<dots> \<le> unat ((ucast (head_m p) :: u64) AND (of_nat N - 1))"
    by (rule take_bit_nat_less_eq_self)
  also have "\<dots> \<le> unat (of_nat N - 1 :: u64)"
    using word_and_le1 [of "ucast (head_m p) :: u64" "of_nat N - 1"]
    by (simp only: word_le_nat_alt)
  finally show ?thesis by (simp add: acquire_def Let_def)
qed

lemma of_nat_u64_nonzero:
  assumes "0 < N" "N < 2 ^ 64"
  shows "(of_nat N :: u64) \<noteq> 0"
proof
  assume "(of_nat N :: u64) = 0"
  then have "unat (of_nat N :: u64) = 0" by simp
  then have "N mod 2 ^ 64 = 0" by (simp only: unat_of_nat len_of_numeral_defs) simp
  with assms show False by simp
qed

lemma acquire_fst_lt:
  assumes "0 < N" "N < 2 ^ 64"
  shows "fst (acquire N p) < N"
proof -
  have "(of_nat N :: u64) \<noteq> 0"
    using assms by (rule of_nat_u64_nonzero)
  then have "unat (of_nat N - 1 :: u64) = unat (of_nat N :: u64) - 1"
    by (rule unat_minus_one)
  also have "unat (of_nat N :: u64) = N"
    using assms by (simp add: unat_of_nat)
  finally show ?thesis
    using acquire_fst_le [of N p] assms by simp
qed

lemma acquire_fst_pow2:
  assumes "k \<le> 32"
  shows "fst (acquire (2 ^ k) p) = unat (head_m p) mod 2 ^ k"
proof -
  have m: "(2 ^ k - 1 :: u64) = mask k"
    by (simp add: mask_eq_decr_exp)
  have "unat (ucast ((ucast (head_m p) :: u64) AND mask k) :: u32)
      = take_bit k (unat (head_m p))"
    using assms
    by (simp only: take_bit_eq_mask [symmetric] unsigned_ucast_eq unsigned_take_bit_eq
        len_of_numeral_defs)
      (simp add: min_def)
  then show ?thesis by (simp add: acquire_def Let_def m take_bit_eq_mod)
qed

lemma head_acquire_times: "head_m (acquire_times N n p) = head_m p + of_nat n"
  by (induction n arbitrary: p) (simp_all add: acquire_def Let_def)

lemma head_BBOPool_new: "head_m (BBOPool_new N hp) = 0"
  by (simp add: BBOPool_new_def)

lemma length_BBOPool_new: "length (pool_m (BBOPool_new N hp)) = N"
  by (simp add: BBOPool_new_def)

lemma acquire_fst_head:
  "fst (acquire N p) = unat (ucast ((ucast (head_m p) :: u64) AND (of_nat N - 1)) :: u32)"
  by (simp add: acquire_def Let_def)

section \<open>Parser helpers\<close>

lemma parse_short: "len < BBO_MIN_SIZE \<Longrightarrow> parse N d len p ts sq = (None, p)"
  by (simp add: parse_def)

lemma parse_accept:
  "\<not> len < BBO_MIN_SIZE \<Longrightarrow>
   parse N d len p ts sq =
     (Some (fst (acquire N p)),
      p\<lparr>head_m := head_m p + 1,
        pool_m := (pool_m p)[fst (acquire N p) :=
          (pool_m p ! fst (acquire N p))
            \<lparr>symbol := memcpy (symbol (pool_m p ! fst (acquire N p))) d 8,
             bid_price := mul_PRICE_MULTIPLIER (bswap32 (load_u32 d 8)),
             ask_price := mul_PRICE_MULTIPLIER (bswap32 (load_u32 d 16)),
             spread := mul_PRICE_MULTIPLIER (bswap32 (load_u32 d 24)),
             bid_shares := bswap32 (load_u32 d 12),
             ask_shares := bswap32 (load_u32 d 20),
             timestamp_ns := ts,
             sequence := sq,
             valid := 1,
             flags := (if BBO_FULL_SIZE \<le> len then HAS_FPGA_TIMESTAMPS else 0)\<rparr>]\<rparr>)"
  by (simp add: parse_def acquire_def Let_def SYMBOL_OFFSET_def BID_PRICE_OFFSET_def)

lemma parse_agree:
  assumes "\<forall>i<28. d1 i = d2 i" "(BBO_FULL_SIZE \<le> l1) = (BBO_FULL_SIZE \<le> l2)"
    "(l1 < BBO_MIN_SIZE) = (l2 < BBO_MIN_SIZE)"
  shows "parse N d1 l1 p ts sq = parse N d2 l2 p ts sq"
proof (cases "l1 < BBO_MIN_SIZE")
  case True
  with assms show ?thesis by (simp add: parse_short)
next
  case False
  have m: "memcpy xs d1 8 = memcpy xs d2 8" for xs
    using assms(1) by (simp add: memcpy_def)
  have l: "load_u32 d1 off = load_u32 d2 off" if "off + 3 < 28" for off
    using assms(1) that by (simp add: load_u32_def)
  from False assms(3) have "\<not> l2 < BBO_MIN_SIZE" by simp
  with False show ?thesis
    by (simp add: parse_accept m l assms(2))
qed

section \<open>Byte order helpers\<close>

lemma bswap16_bswap16: "bswap16 (bswap16 x) = x"
proof (rule bit_word_eqI)
  fix n assume "n < LENGTH(16)"
  then show "bit (bswap16 (bswap16 x)) n = bit x n"
    unfolding bswap16_def
    by (cases "n < 8") (simp_all add: bit_or_iff bit_push_bit_iff bit_drop_bit_eq)
qed

lemma bswap16_load_u16: "bswap16 (load_u16 p off) = be16 p off"
proof (rule bit_word_eqI)
  fix n assume "n < LENGTH(16)"
  then show "bit (bswap16 (load_u16 p off)) n = bit (be16 p off) n"
    unfolding bswap16_def load_u16_def be16_def
    by (cases "n < 8")
      (auto simp add: bit_or_iff bit_push_bit_iff bit_drop_bit_eq bit_ucast_iff
        dest: bit_imp_le_length)
qed

lemma load_u16_eq_bswap16: "load_u16 p off = bswap16 c \<longleftrightarrow> be16 p off = c"
  by (metis bswap16_bswap16 bswap16_load_u16)

lemma deref_parse_accept:
  assumes "\<not> len < BBO_MIN_SIZE" "0 < N" "N < 2 ^ 64" "length (pool_m p) = N"
  shows "deref (parse N d len p ts sq) = Some
          ((pool_m p ! fst (acquire N p))
            \<lparr>symbol := memcpy (symbol (pool_m p ! fst (acquire N p))) d 8,
             bid_price := mul_PRICE_MULTIPLIER (bswap32 (load_u32 d 8)),
             ask_price := mul_PRICE_MULTIPLIER (bswap32 (load_u32 d 16)),
             spread := mul_PRICE_MULTIPLIER (bswap32 (load_u32 d 24)),
             bid_shares := bswap32 (load_u32 d 12),
             ask_shares := bswap32 (load_u32 d 20),
             timestamp_ns := ts,
             sequence := sq,
             valid := 1,
             flags := (if BBO_FULL_SIZE \<le> len then HAS_FPGA_TIMESTAMPS else 0)\<rparr>)"
  using acquire_fst_lt [OF assms(2,3), of p] assms(4)
  by (simp add: parse_accept [OF assms(1)] deref_def)

section \<open>Receiver helpers\<close>

lemma filter_conds:
  "ether_type pkt = rte_cpu_to_be_16 RTE_ETHER_TYPE_IPV4 \<longleftrightarrow> be16 pkt 12 = RTE_ETHER_TYPE_IPV4"
  "rte_be_to_cpu_16 (dst_port pkt) = be16 pkt (udp_offset pkt + 2)"
  "rte_be_to_cpu_16 (dgram_len pkt) = be16 pkt (udp_offset pkt + 4)"
  by (simp_all add: ether_type_def rte_cpu_to_be_16_def rte_be_to_cpu_16_def dst_port_def
      dgram_len_def load_u16_eq_bswap16 bswap16_load_u16)

lemma process_packet_filtered:
  "be16 pkt 12 \<noteq> RTE_ETHER_TYPE_IPV4 \<or> next_proto_id pkt \<noteq> IPPROTO_UDP
     \<or> be16 pkt (udp_offset pkt + 2) \<noteq> udp_port (config_m st) \<Longrightarrow>
   process_packet tp ts pkt st = st"
  by (auto simp add: process_packet_def filter_conds)

lemma process_packet_short:
  assumes "be16 pkt 12 = RTE_ETHER_TYPE_IPV4" "next_proto_id pkt = IPPROTO_UDP"
    "be16 pkt (udp_offset pkt + 2) = udp_port (config_m st)"
    "payload_len pkt < BBO_MIN_SIZE"
  shows "process_packet tp ts pkt st =
     \<lparr>config_m = config_m st,
      stats_m = (if enable_stats (config_m st)
        then \<lparr>packets_received = packets_received (stats_m st) + 1,
              packets_processed = packets_processed (stats_m st),
              packets_dropped = packets_dropped (stats_m st),
              parse_errors = parse_errors (stats_m st) + 1,
              ring_buffer_full = ring_buffer_full (stats_m st)\<rparr>
        else stats_m st),
      bbo_pool_m = bbo_pool_m st,
      ring_buffer_m = ring_buffer_m st,
      sequence_m = sequence_m st + 1\<rparr>"
  using assms
  by (simp add: process_packet_def filter_conds Let_def parse_short)

lemma process_packet_accept:
  fixes tp :: "'r \<Rightarrow> gateway_BBOData \<Rightarrow> bool \<times> 'r" and ts :: u64 and pkt :: ptr
    and st :: "'r DPDKReceiver"
  assumes "be16 pkt 12 = RTE_ETHER_TYPE_IPV4" "next_proto_id pkt = IPPROTO_UDP"
    "be16 pkt (udp_offset pkt + 2) = udp_port (config_m st)"
    "\<not> payload_len pkt < BBO_MIN_SIZE"
  defines "res \<equiv> parse RECEIVER_POOL_SIZE (payload pkt) (payload_len pkt) (bbo_pool_m st) ts
      (sequence_m st)"
  defines "pub \<equiv> tp (ring_buffer_m st)
      (convert (pool_m (snd res) ! fst (acquire RECEIVER_POOL_SIZE (bbo_pool_m st))))"
  shows "process_packet tp ts pkt st =
     \<lparr>config_m = config_m st,
      stats_m = (if enable_stats (config_m st)
        then \<lparr>packets_received = packets_received (stats_m st) + 1,
              packets_processed = packets_processed (stats_m st) + 1,
              packets_dropped = packets_dropped (stats_m st),
              parse_errors = parse_errors (stats_m st),
              ring_buffer_full = ring_buffer_full (stats_m st) + (if fst pub then 0 else 1)\<rparr>
        else stats_m st),
      bbo_pool_m = snd res,
      ring_buffer_m = snd pub,
      sequence_m = sequence_m st + 1\<rparr>"
  using assms(1-4) unfolding res_def pub_def
  by (simp add: process_packet_def filter_conds Let_def parse_accept convert_and_publish_def
      case_prod_beta)

lemma frame_eval:
  "be16 (ptr_of (example_frame a b c d e f body)) 12 = push_bit 8 (ucast a) OR ucast b"
  "next_proto_id (ptr_of (example_frame a b c d e f body)) = 17"
  "udp_offset (ptr_of (example_frame a b c d e f body)) = 34"
  "be16 (ptr_of (example_frame a b c d e f body)) 36 = push_bit 8 (ucast c) OR ucast d"
  "be16 (ptr_of (example_frame a b c d e f body)) 38 = push_bit 8 (ucast e) OR ucast f"
  by (simp_all add: be16_def ptr_of_def example_frame_def next_proto_id_def udp_offset_def
      version_ihl_def ETH_SIZE_def)

lemma length_example_frame: "length (example_frame a b c d e f body) = 42 + length body"
  by (simp add: example_frame_def)

lemma payload_len_be16: "payload_len pkt = ucast (be16 pkt (udp_offset pkt + 4)) - 8"
  by (simp add: payload_len_def filter_conds UDP_SIZE_def)

lemma payload_len_wrap:
  assumes "be16 pkt (udp_offset pkt + 4) < 8"
  shows "unat (payload_len pkt) = 2 ^ 64 - 8 + unat (be16 pkt (udp_offset pkt + 4))"
    and "44 \<le> payload_len pkt"
proof -
  let ?x = "be16 pkt (udp_offset pkt + 4)"
  from assms have x8: "unat ?x < 8"
    by (simp add: word_less_nat_alt)
  have u: "unat (ucast ?x :: u64) = unat ?x"
    using x8 by (simp add: unsigned_ucast_eq take_bit_nat_eq_self)
  have "unat (payload_len pkt) = unat (ucast ?x :: u64) + 2 ^ 64 - unat (8 :: u64)"
    using x8 u by (simp add: payload_len_be16 unat_sub_if_size word_size)
  with u show a: "unat (payload_len pkt) = 2 ^ 64 - 8 + unat ?x"
    by simp
  show "44 \<le> payload_len pkt"
    by (simp add: word_le_nat_alt a)
qed

lemma short_frame_eval:
  "payload_len (ptr_of (example_frame 0x08 0x00 0x30 0x39 0 35 (replicate 27 0x41))) = 27"
  by (simp add: payload_len_be16 frame_eval)

section \<open>Publisher helpers\<close>

lemma convert_pad_eq:
  "i \<le> 16 \<Longrightarrow> length sy = 16 \<Longrightarrow> convert_pad i sy = take i sy @ replicate (16 - i) 0x20"
proof (induction i sy rule: convert_pad.induct)
  case (1 i sy)
  show ?case
  proof (cases "i < 16")
    case True
    have "convert_pad i sy = convert_pad (Suc i) (sy[i := 0x20])"
      using True by (subst convert_pad.simps) (simp add: SYMBOL_MAX_LEN_def)
    also have "\<dots> = take (Suc i) (sy[i := 0x20]) @ replicate (16 - Suc i) 0x20"
      using True "1.prems" by (intro "1.IH") (simp_all add: SYMBOL_MAX_LEN_def)
    also have "take (Suc i) (sy[i := 0x20]) = take i sy @ [0x20]"
      using True "1.prems" by (simp add: take_Suc_conv_app_nth)
    also have "(take i sy @ [0x20]) @ replicate (16 - Suc i) 0x20
        = take i sy @ replicate (16 - i) 0x20"
    proof -
      from True have "16 - i = Suc (16 - Suc i)" by simp
      then show ?thesis by (simp add: replicate_append_same)
    qed
    finally show ?thesis .
  next
    case False
    with "1.prems" have "i = 16" by simp
    then show ?thesis using "1.prems" by (subst convert_pad.simps) (simp add: SYMBOL_MAX_LEN_def)
  qed
qed

lemma map_ptr_of: "n \<le> length xs \<Longrightarrow> map (ptr_of xs) [0..<n] = take n xs"
  by (rule nth_equalityI) (simp_all add: ptr_of_def)

lemma gw_symbol_convert_take:
  assumes "8 \<le> length (symbol fast)"
  shows "gw_symbol (convert fast) = take 8 (symbol fast) @ replicate 7 0x20 @ [0]"
proof -
  have m: "memcpy (replicate 16 0) (ptr_of (symbol fast)) 8 = take 8 (symbol fast) @ replicate 8 0"
    using assms by (simp add: memcpy_def map_ptr_of)
  have "convert_pad 8 (take 8 (symbol fast) @ replicate 8 0) = take 8 (symbol fast) @ replicate 8 0x20"
    using assms by (simp add: convert_pad_eq)
  moreover have "(take 8 (symbol fast) @ replicate 8 0x20)[15 := 0]
      = take 8 (symbol fast) @ replicate 7 0x20 @ [0]"
    using assms by (simp add: list_update_append numeral_eq_Suc)
  ultimately show ?thesis
    by (simp add: convert_def Let_def SYMBOL_MAX_LEN_def m)
qed

lemma gw_symbol_convert:
  assumes "length (symbol fast) = 8"
  shows "gw_symbol (convert fast) = symbol fast @ replicate 7 0x20 @ [0]"
  using gw_symbol_convert_take [of fast] assms by simp

lemma convert_flags: "convert (r\<lparr>flags := f\<rparr>) = convert r"
  by (simp add: convert_def)

section \<open>Evaluating the price scaling\<close>

lemma bit_length_0: "bit_length 0 = 0"
  by (simp add: bit_length.simps)

lemma bit_length_1: "bit_length (Suc 0) = 1"
  by (simp add: bit_length.simps)

lemma bit_length_numeral: "bit_length (numeral k) = Suc (bit_length (numeral k div 2))"
  by (subst bit_length.simps) simp

lemmas mul_PRICE_MULTIPLIER_eval =
  mul_PRICE_MULTIPLIER_def PRICE_MULTIPLIER_significand_def round53_def round_nearest_even_def
  bit_length_0 bit_length_1 bit_length_numeral Let_def

lemma mul_PRICE_MULTIPLIER_1500000: "mul_PRICE_MULTIPLIER 1500000 = 150"
  by (simp add: mul_PRICE_MULTIPLIER_eval)

lemma mul_PRICE_MULTIPLIER_1500576: "mul_PRICE_MULTIPLIER 1500576 = 5279682433157117 / 2 ^ 45"
  by (simp add: mul_PRICE_MULTIPLIER_eval)

lemma mul_PRICE_MULTIPLIER_1501000: "mul_PRICE_MULTIPLIER 1501000 = 5281174250533683 / 2 ^ 45"
  by (simp add: mul_PRICE_MULTIPLIER_eval)

lemma mul_PRICE_MULTIPLIER_10000: "mul_PRICE_MULTIPLIER 10000 = 1"
  by (simp add: mul_PRICE_MULTIPLIER_eval)

lemma mul_PRICE_MULTIPLIER_1000: "mul_PRICE_MULTIPLIER 1000 = 3602879701896397 / 2 ^ 55"
  by (simp add: mul_PRICE_MULTIPLIER_eval)

lemma PRICE_MULTIPLIER_nearest: "\<bar>PRICE_MULTIPLIER - 1 / 10000\<bar> \<le> 1 / 2 ^ 67"
  by (simp add: PRICE_MULTIPLIER_def PRICE_MULTIPLIER_significand_def)

lemma get_symbol_prefix:
  assumes "length xs = 8" "symbol b = xs @ ys"
  shows "get_symbol b = strip_trailing_spaces_nuls xs"
proof -
  have "get_symbol_len (symbol b) 8 = length (strip_trailing_spaces_nuls xs)"
    using assms get_symbol_len_eq [of 8 "symbol b"] by simp
  moreover have "length (strip_trailing_spaces_nuls xs) \<le> length xs"
    by (simp add: strip_trailing_spaces_nuls_def length_dropWhile_le [THEN order_trans])
  ultimately have "get_symbol b = take (length (strip_trailing_spaces_nuls xs)) xs"
    using assms by (simp add: get_symbol_def)
  then show ?thesis by (simp add: take_strip_trailing)
qed

lemma minimal_loads:
  "bswap32 (load_u32 (ptr_of minimal_payload) 8) = 1500000"
  "bswap32 (load_u32 (ptr_of minimal_payload) 12) = 100"
  "bswap32 (load_u32 (ptr_of minimal_payload) 16) = 1500576"
  "bswap32 (load_u32 (ptr_of minimal_payload) 20) = 100"
  "bswap32 (load_u32 (ptr_of minimal_payload) 24) = 10000"
  by (simp_all add: load_u32_def ptr_of_def minimal_payload_def bswap32_def)

lemma minimal_symbol:
  "map (ptr_of minimal_payload) [0..<8] = [0x41, 0x41, 0x50, 0x4C, 0x20, 0x20, 0x20, 0x20]"
  by (simp add: ptr_of_def minimal_payload_def upt_conv_Cons)

lemma replicate_7: "replicate 7 x = [x, x, x, x, x, x, x]"
  by (simp add: numeral_eq_Suc)

section \<open>The warm-up packet\<close>

lemma u16_bytes: "ucast (ucast v :: u8) OR push_bit 8 (ucast (ucast (drop_bit 8 v) :: u8)) = (v :: u16)"
proof (rule bit_word_eqI)
  fix n assume "n < LENGTH(16)"
  then show "bit (ucast (ucast v :: u8) OR push_bit 8 (ucast (ucast (drop_bit 8 v) :: u8)) :: u16) n = bit v n"
    by (cases "n < 8") (auto simp add: bit_or_iff bit_push_bit_iff bit_drop_bit_eq bit_ucast_iff)
qed

lemma replicate_86: "replicate 86 (0::u8) = 
  [0,0,0,0,0,0,0,0,0,0, 0,0,0,0,0,0,0,0,0,0, 0,0,0,0,0,0,0,0,0,0, 0,0,0,0,0,0,0,0,0,0,
   0,0,0,0,0,0,0,0,0,0, 0,0,0,0,0,0,0,0,0,0, 0,0,0,0,0,0,0,0,0,0, 0,0,0,0,0,0,0,0,0,0, 0,0,0,0,0,0]"
  by (simp add: numeral_eq_Suc)

lemma dummy_bytes:
  "create_dummy_packet cfg True = Some
    [0, 0, 0, 0, 0, 0, 0, 0, 0, 0, 0, 0, 0x08, 0x00,
     0x45, 0, 0x00, 0x48, 0, 0, 0, 0, 0, 17, 0, 0, 0, 0, 0, 0, 0, 0, 0, 0,
     0, 0, ucast (bswap16 (udp_port cfg)), ucast (drop_bit 8 (bswap16 (udp_port cfg))),
     0x00, 0x34, 0, 0,
     0x57, 0x41, 0x52, 0x4D, 0x55, 0x50, 0x20, 0x20,
     0x00, 0x16, 0xE3, 0x60, 0x00, 0x00, 0x00, 0x64,
     0x00, 0x16, 0xE3, 0x60, 0x00, 0x00, 0x00, 0x64,
     0x00, 0x00, 0x03, 0xE8,
     0, 0, 0, 0, 0, 0, 0, 0, 0, 0, 0, 0, 0, 0, 0, 0]"
  by (simp add: create_dummy_packet_def Let_def TOTAL_SIZE_def ETH_SIZE_def IP_SIZE_def UDP_SIZE_def
      BBO_SIZE_def replicate_86 store_u16_def store_u32_def store_bytes_def rte_cpu_to_be_16_def
      bswap16_def bswap32_def RTE_ETHER_TYPE_IPV4_def IPPROTO_UDP_def)

lemma dummy_header:
  assumes "create_dummy_packet cfg True = Some dummy"
  shows "length dummy = 86"
    and "be16 (ptr_of dummy) 12 = RTE_ETHER_TYPE_IPV4"
    and "next_proto_id (ptr_of dummy) = IPPROTO_UDP"
    and "udp_offset (ptr_of dummy) = 34"
    and "be16 (ptr_of dummy) 38 = 52"
  using assms unfolding dummy_bytes
  by (auto simp add: be16_def ptr_of_def next_proto_id_def udp_offset_def version_ihl_def
      ETH_SIZE_def RTE_ETHER_TYPE_IPV4_def IPPROTO_UDP_def)

lemma dummy_port:
  assumes "create_dummy_packet cfg True = Some dummy"
  shows "be16 (ptr_of dummy) 36 = udp_port cfg"
proof -
  have "load_u16 (ptr_of dummy) 36 = bswap16 (udp_port cfg)"
    using assms unfolding dummy_bytes
    by (auto simp add: load_u16_def ptr_of_def u16_bytes)
  then show ?thesis
    by (simp add: bswap16_load_u16 [symmetric] bswap16_bswap16)
qed

lemma dummy_payload:
  assumes "create_dummy_packet cfg True = Some dummy"
  shows "map (payload (ptr_of dummy)) [0..<8] = map of_char ''WARMUP  ''"
    and "bswap32 (load_u32 (payload (ptr_of dummy)) 8) = 1500000"
    and "bswap32 (load_u32 (payload (ptr_of dummy)) 12) = 100"
    and "bswap32 (load_u32 (payload (ptr_of dummy)) 16) = 1500000"
    and "bswap32 (load_u32 (payload (ptr_of dummy)) 20) = 100"
    and "bswap32 (load_u32 (payload (ptr_of dummy)) 24) = 1000"
  unfolding payload_def dummy_header(4) [OF assms] UDP_SIZE_def
  using assms unfolding dummy_bytes
  by (auto simp add: load_u32_def ptr_of_def bswap32_def upt_conv_Cons)

lemma dummy_payload_len:
  assumes "create_dummy_packet cfg True = Some dummy"
  shows "payload_len (ptr_of dummy) = 44"
  by (simp add: payload_len_be16 dummy_header [OF assms])

lemma try_publish_full:
  "ring_capacity r \<le> length (ring_records r) \<Longrightarrow> try_publish r x = (False, r)"
  by (simp add: try_publish_def)

section \<open>Symbol round trip\<close>

text \<open>
  C7. For every record with its 8-byte symbol array, every pointer \<open>sy\<close> and
  length \<open>len\<close>: \<^verbatim>\<open>set_symbol(sy, len)\<close> followed by \<^verbatim>\<open>get_symbol()\<close> yields the \<open>len\<close> bytes at
  \<open>sy\<close>, truncated to at most 8 bytes, with their trailing spaces and NUL bytes stripped.
\<close>

theorem set_get_symbol_roundtrip:
  "length (symbol b) = 8 \<Longrightarrow>
   get_symbol (set_symbol b sy len) = strip_trailing_spaces_nuls (take 8 (bytes_at sy len))"
proof -
  assume len8: "length (symbol b) = 8"
  have l: "length (symbol (set_symbol b sy len)) = 8"
    by (simp add: symbol_set_symbol [OF len8])
  show ?thesis
    by (simp only: get_symbol_strip [OF l] symbol_set_symbol [OF len8] strip_trailing_pad)
qed

theorem set_get_symbol_roundtrip_witness:
  "length (symbol clear) = 8 \<and>
   get_symbol (set_symbol clear (ptr_of [0x41, 0x42, 0x20]) 3) = [0x41, 0x42]"
  using set_get_symbol_roundtrip [of clear "ptr_of [0x41, 0x42, 0x20]" 3]
  by (simp add: clear_def bytes_at_def ptr_of_def strip_trailing_spaces_nuls_def upt_conv_Cons)

text \<open>
  The bytes \<^verbatim>\<open>"A\0"\<close> with length 2: \<^verbatim>\<open>get_symbol\<close> yields \<^verbatim>\<open>"A"\<close>, while stripping only the
  trailing spaces of the input leaves the NUL byte in place.
\<close>

theorem set_get_symbol_nul_counterexample:
  "get_symbol (set_symbol clear (ptr_of [0x41, 0x00]) 2) = [0x41] \<and>
   strip_trailing_spaces (take 8 (bytes_at (ptr_of [0x41, 0x00]) 2)) = [0x41, 0x00]"
proof -
  have l: "length (symbol clear) = 8" by (simp add: clear_def)
  have l2: "length (symbol (set_symbol clear (ptr_of [0x41, 0x00]) 2)) = 8"
    by (simp add: symbol_set_symbol [OF l])
  show ?thesis
    unfolding get_symbol_strip [OF l2] symbol_set_symbol [OF l]
    by (simp add: bytes_at_def ptr_of_def dropWhile_pad
        strip_trailing_spaces_nuls_def strip_trailing_spaces_def upt_conv_Cons)
qed

section \<open>Round-robin slots\<close>

text \<open>
  C4. For a pool size \<open>N = 2^k\<close> with \<open>k \<le> 32\<close>: \<^verbatim>\<open>acquire\<close> returns a slot of the
  pool (an index below \<open>N\<close>); the index of the next \<^verbatim>\<open>acquire\<close> is the index of this one plus
  1 modulo \<open>N\<close>; and on a 1024-slot pool the first \<^verbatim>\<open>acquire\<close> and the one 1024 calls later
  (acquire #1 and acquire #1025) return the same slot.
\<close>

theorem acquire_round_robin:
  assumes "k \<le> 32" "N = 2 ^ k"
  shows "fst (acquire N p) < N
     \<and> fst (acquire N (snd (acquire N p))) = (fst (acquire N p) + 1) mod N
     \<and> fst (acquire 1024 (acquire_times 1024 1024 p)) = fst (acquire 1024 p)"
proof -
  have dv: "(2::nat) ^ k dvd 2 ^ 32"
    using assms(1) by (rule le_imp_power_dvd)
  have a: "fst (acquire N p) = unat (head_m p) mod N"
    using assms by (simp add: acquire_fst_pow2)
  have "fst (acquire N (snd (acquire N p))) = unat (head_m p + 1) mod N"
    using assms acquire_fst_pow2 [of k "snd (acquire N p)"] by (simp add: acquire_snd)
  also have "unat (head_m p + 1) = (unat (head_m p) + 1) mod 2 ^ 32"
    by (simp add: unat_word_ariths)
  also have "(unat (head_m p) + 1) mod 2 ^ 32 mod N = (unat (head_m p) + 1) mod N"
    using dv assms by (simp add: mod_mod_cancel)
  also have "\<dots> = (fst (acquire N p) + 1) mod N"
    by (simp add: a mod_simps)
  finally have b: "fst (acquire N (snd (acquire N p))) = (fst (acquire N p) + 1) mod N" .
  have c: "fst (acquire 1024 (acquire_times 1024 1024 p)) = fst (acquire 1024 p)"
  proof -
    have "unat (head_m p + 1024) mod 2 ^ 10 = unat (head_m p) mod 2 ^ 10"
    proof -
      have "unat (head_m p + 1024) = (unat (head_m p) + 1024) mod 2 ^ 32"
        by (simp add: unat_word_ariths)
      also have "\<dots> mod 2 ^ 10 = (unat (head_m p) + 1024) mod 2 ^ 10"
        by (rule mod_mod_cancel) (simp add: le_imp_power_dvd)
      also have "\<dots> = unat (head_m p) mod 2 ^ 10"
        by simp
      finally show ?thesis .
    qed
    then show ?thesis
      using acquire_fst_pow2 [of 10 "acquire_times 1024 1024 p"] acquire_fst_pow2 [of 10 p]
      by (simp add: head_acquire_times)
  qed
  have "fst (acquire N p) < N" unfolding a using assms by simp
  with b c show ?thesis by simp
qed

theorem acquire_round_robin_witness:
  "(10::nat) \<le> 32 \<and> (1024::nat) = 2 ^ 10 \<and>
   fst (acquire 1024 (BBOPool_new 1024 False)) < 1024 \<and>
   fst (acquire 1024 (snd (acquire 1024 (BBOPool_new 1024 False)))) = 1 \<and>
   fst (acquire 1024 (acquire_times 1024 1024 (BBOPool_new 1024 False))) = 0"
  using acquire_round_robin [of 10 1024 "BBOPool_new 1024 False"]
  by (simp add: acquire_fst_head head_BBOPool_new)

text \<open>
  A pool of \<open>2^33\<close> slots passes both static assertions of \<^verbatim>\<open>BBOPool\<close>. After \<open>2^32 - 1\<close>
  acquires on a fresh one the counter is \<^verbatim>\<open>0xFFFFFFFF\<close>: the next slot is 4294967295, the
  32-bit counter wraps, and the slot after it is 0, not 4294967296.
\<close>

theorem acquire_wide_pool_counterexample:
  "fst (acquire (2 ^ 33) (acquire_times (2 ^ 33) (2 ^ 32 - 1) (BBOPool_new (2 ^ 33) False)))
     = 4294967295
   \<and> fst (acquire (2 ^ 33) (snd (acquire (2 ^ 33)
        (acquire_times (2 ^ 33) (2 ^ 32 - 1) (BBOPool_new (2 ^ 33) False))))) = 0
   \<and> (4294967295 + 1) mod 2 ^ 33 \<noteq> (0::nat)"
  by (simp add: acquire_fst_head acquire_snd head_acquire_times head_BBOPool_new)

section \<open>The hardware-timestamp flag\<close>

text \<open>
  C2. For every payload length from 28 to 43 the parse succeeds and leaves the
  hardware-timestamp bit of the record's flags clear
  (\<open>flags AND HAS_FPGA_TIMESTAMPS = 0\<close>); for every length of at least 44 it succeeds and
  sets it (\<open>flags AND HAS_FPGA_TIMESTAMPS = 1\<close>). The pool holds its \<open>N\<close> records.
\<close>

theorem parse_timestamp_flag:
  assumes "0 < N" "N < 2 ^ 64" "length (pool_m p) = N"
  shows "(28 \<le> len \<and> len \<le> 43 \<longrightarrow>
          map_option (\<lambda>r. flags r AND HAS_FPGA_TIMESTAMPS) (deref (parse N d len p ts sq))
            = Some 0)
       \<and> (44 \<le> len \<longrightarrow>
          map_option (\<lambda>r. flags r AND HAS_FPGA_TIMESTAMPS) (deref (parse N d len p ts sq))
            = Some 1)"
proof (intro conjI impI)
  assume "28 \<le> len \<and> len \<le> 43"
  then have "\<not> len < BBO_MIN_SIZE" "\<not> BBO_FULL_SIZE \<le> len"
    by (simp_all add: BBO_MIN_SIZE_def BBO_FULL_SIZE_def not_less word_le_nat_alt)
  then show "map_option (\<lambda>r. flags r AND HAS_FPGA_TIMESTAMPS)
      (deref (parse N d len p ts sq)) = Some 0"
    using assms by (simp add: deref_parse_accept)
next
  assume "44 \<le> len"
  then have "\<not> len < BBO_MIN_SIZE" "BBO_FULL_SIZE \<le> len"
    by (simp_all add: BBO_MIN_SIZE_def BBO_FULL_SIZE_def not_less word_le_nat_alt)
  then show "map_option (\<lambda>r. flags r AND HAS_FPGA_TIMESTAMPS)
      (deref (parse N d len p ts sq)) = Some 1"
    using assms by (simp add: deref_parse_accept HAS_FPGA_TIMESTAMPS_def)
qed

theorem parse_timestamp_flag_witness:
  "(0::nat) < 1024 \<and> (1024::nat) < 2 ^ 64 \<and> length (pool_m (BBOPool_new 1024 False)) = 1024
   \<and> (28::u64) \<le> 30 \<and> (30::u64) \<le> 43
   \<and> map_option (\<lambda>r. flags r AND HAS_FPGA_TIMESTAMPS)
        (deref (parse 1024 (ptr_of []) 30 (BBOPool_new 1024 False) 0 0)) = Some 0
   \<and> (44::u64) \<le> 50
   \<and> map_option (\<lambda>r. flags r AND HAS_FPGA_TIMESTAMPS)
        (deref (parse 1024 (ptr_of []) 50 (BBOPool_new 1024 False) 0 0)) = Some 1"
  using parse_timestamp_flag [of 1024 "BBOPool_new 1024 False" 30 "ptr_of []" 0 0]
    parse_timestamp_flag [of 1024 "BBOPool_new 1024 False" 50 "ptr_of []" 0 0]
  by (simp add: length_BBOPool_new)

section \<open>Oversized payloads\<close>

text \<open>
  C8. Two payloads of lengths of at least 44 that agree on their first 44 bytes, parsed
  with the same pool, timestamp and sequence number, give the same result, the slot and
  the whole pool with the record in it; and the parse of such a payload does not return
  the null sentinel.
\<close>

theorem parse_ignores_bytes_beyond_44:
  assumes "44 \<le> l1" "44 \<le> l2" "\<forall>i<44. d1 i = d2 i"
  shows "parse N d1 l1 p ts sq = parse N d2 l2 p ts sq \<and> fst (parse N d1 l1 p ts sq) \<noteq> None"
proof -
  from assms(1,2) have f: "BBO_FULL_SIZE \<le> l1" "BBO_FULL_SIZE \<le> l2"
    and m: "\<not> l1 < BBO_MIN_SIZE" "\<not> l2 < BBO_MIN_SIZE"
    by (simp_all add: BBO_MIN_SIZE_def BBO_FULL_SIZE_def not_less word_le_nat_alt)
  from assms(3) have "\<forall>i<28. d1 i = d2 i" by simp
  then have "parse N d1 l1 p ts sq = parse N d2 l2 p ts sq"
    using f m by (intro parse_agree) simp_all
  moreover have "fst (parse N d1 l1 p ts sq) \<noteq> None"
    using m by (simp add: parse_accept)
  ultimately show ?thesis by simp
qed

theorem parse_ignores_bytes_beyond_44_witness:
  "(44::u64) \<le> 45 \<and> (44::u64) \<le> 60
   \<and> example_payload 1 44 \<noteq> example_payload 2 44
   \<and> parse 1024 (example_payload 1) 45 (BBOPool_new 1024 False) 7 3
       = parse 1024 (example_payload 2) 60 (BBOPool_new 1024 False) 7 3
   \<and> fst (parse 1024 (example_payload 1) 45 (BBOPool_new 1024 False) 7 3) \<noteq> None"
proof -
  have a: "(44::u64) \<le> 45" "(44::u64) \<le> 60"
    by simp_all
  have h: "\<forall>i<44. example_payload 1 i = example_payload 2 i"
    by (simp add: example_payload_def)
  have e: "example_payload 1 44 \<noteq> example_payload 2 44"
    by (simp add: example_payload_def)
  from a e parse_ignores_bytes_beyond_44 [OF a h, of 1024 "BBOPool_new 1024 False" 7 3]
  show ?thesis
    by blast
qed

section \<open>Filtered frames\<close>

text \<open>
  C6. For every frame whose ethertype is not IPv4, or whose IP protocol is not UDP, or
  whose UDP destination port differs from the configured port, \<^verbatim>\<open>process_packet\<close> leaves
  the receiver as it was: nothing is parsed or published and no statistics counter
  changes.
\<close>

theorem filtered_frame_changes_nothing:
  "be16 pkt 12 \<noteq> RTE_ETHER_TYPE_IPV4 \<or> next_proto_id pkt \<noteq> IPPROTO_UDP
     \<or> be16 pkt (udp_offset pkt + 2) \<noteq> udp_port (config_m st) \<Longrightarrow>
   process_packet tp ts pkt st = st"
  by (rule process_packet_filtered)

text \<open>
  A 64-byte frame with ethertype 0x86DD, and an IPv4/UDP frame to port 9999 while the
  configured port is 12345.
\<close>

theorem filtered_frame_changes_nothing_witness:
  "be16 (ptr_of (example_frame 0x86 0xDD 0x30 0x39 0 30 (replicate 22 0))) 12 = 0x86DD
   \<and> length (example_frame 0x86 0xDD 0x30 0x39 0 30 (replicate 22 0)) = 64
   \<and> process_packet try_publish 7
        (ptr_of (example_frame 0x86 0xDD 0x30 0x39 0 30 (replicate 22 0)))
        (DPDKReceiver_new Config_default False \<lparr>ring_records = [], ring_capacity = 4\<rparr>)
      = DPDKReceiver_new Config_default False \<lparr>ring_records = [], ring_capacity = 4\<rparr>
   \<and> be16 (ptr_of (example_frame 0x08 0x00 0x27 0x0F 0 36 (replicate 28 0x41))) 36 = 9999
   \<and> udp_port Config_default = 12345
   \<and> process_packet try_publish 7
        (ptr_of (example_frame 0x08 0x00 0x27 0x0F 0 36 (replicate 28 0x41)))
        (DPDKReceiver_new Config_default False \<lparr>ring_records = [], ring_capacity = 4\<rparr>)
      = DPDKReceiver_new Config_default False \<lparr>ring_records = [], ring_capacity = 4\<rparr>"
  using filtered_frame_changes_nothing
      [of "ptr_of (example_frame 0x86 0xDD 0x30 0x39 0 30 (replicate 22 0))"
        "DPDKReceiver_new Config_default False \<lparr>ring_records = [], ring_capacity = 4\<rparr>"
        try_publish 7]
    filtered_frame_changes_nothing
      [of "ptr_of (example_frame 0x08 0x00 0x27 0x0F 0 36 (replicate 28 0x41))"
        "DPDKReceiver_new Config_default False \<lparr>ring_records = [], ring_capacity = 4\<rparr>"
        try_publish 7]
  by (simp add: frame_eval RTE_ETHER_TYPE_IPV4_def DPDKReceiver_new_def Config_default_def
      length_example_frame)

section \<open>Short payloads\<close>

text \<open>
  C3. For every payload length below 28 \<^verbatim>\<open>parse\<close> returns the null sentinel and
  leaves the pool, its head counter included, as it was. For a frame that passes the
  filters and carries such a payload, \<^verbatim>\<open>process_packet\<close> adds 1 to \<^verbatim>\<open>sequence_\<close> and, when
  \<^verbatim>\<open>enable_stats\<close> is set, 1 to \<^verbatim>\<open>packets_received\<close> and 1 to \<^verbatim>\<open>parse_errors\<close>; the pool, the
  ring and the other counters do not change, and with \<^verbatim>\<open>enable_stats\<close> off no counter does.
\<close>

theorem short_payload_rejected:
  "(len < 28 \<longrightarrow> parse N d len p ts sq = (None, p)) \<and>
   (be16 pkt 12 = RTE_ETHER_TYPE_IPV4 \<and> next_proto_id pkt = IPPROTO_UDP
      \<and> be16 pkt (udp_offset pkt + 2) = udp_port (config_m st) \<and> payload_len pkt < 28 \<longrightarrow>
    process_packet tp ts' pkt st =
     \<lparr>config_m = config_m st,
      stats_m = (if enable_stats (config_m st)
        then \<lparr>packets_received = packets_received (stats_m st) + 1,
              packets_processed = packets_processed (stats_m st),
              packets_dropped = packets_dropped (stats_m st),
              parse_errors = parse_errors (stats_m st) + 1,
              ring_buffer_full = ring_buffer_full (stats_m st)\<rparr>
        else stats_m st),
      bbo_pool_m = bbo_pool_m st,
      ring_buffer_m = ring_buffer_m st,
      sequence_m = sequence_m st + 1\<rparr>)"
  by (simp add: parse_short process_packet_short BBO_MIN_SIZE_def)

text \<open>An IPv4/UDP frame to the configured port 12345 with a payload of 27 bytes.\<close>

theorem short_payload_rejected_witness:
  "(27::u64) < 28
   \<and> parse 1024 (ptr_of (replicate 27 0x41)) 27 (BBOPool_new 1024 False) 7 0
       = (None, BBOPool_new 1024 False)
   \<and> payload_len (ptr_of (example_frame 0x08 0x00 0x30 0x39 0 35 (replicate 27 0x41))) = 27
   \<and> process_packet try_publish 7
        (ptr_of (example_frame 0x08 0x00 0x30 0x39 0 35 (replicate 27 0x41)))
        (DPDKReceiver_new Config_default False \<lparr>ring_records = [], ring_capacity = 4\<rparr>)
      = \<lparr>config_m = Config_default,
         stats_m = \<lparr>packets_received = 1, packets_processed = 0, packets_dropped = 0,
                    parse_errors = 1, ring_buffer_full = 0\<rparr>,
         bbo_pool_m = BBOPool_new RECEIVER_POOL_SIZE False,
         ring_buffer_m = \<lparr>ring_records = [], ring_capacity = 4\<rparr>,
         sequence_m = 1\<rparr>"
  using short_payload_rejected [of 27 1024 "ptr_of (replicate 27 0x41)" "BBOPool_new 1024 False"
      7 0 "ptr_of (example_frame 0x08 0x00 0x30 0x39 0 35 (replicate 27 0x41))"
      "DPDKReceiver_new Config_default False \<lparr>ring_records = [], ring_capacity = 4\<rparr>"
      try_publish 7]
  by (simp add: frame_eval short_frame_eval RTE_ETHER_TYPE_IPV4_def IPPROTO_UDP_def
      DPDKReceiver_new_def Config_default_def)

text \<open>
  The same frame on a fresh receiver. With the default configuration \<^verbatim>\<open>packets_received\<close>
  and \<^verbatim>\<open>sequence_\<close> go from 0 to 1 beside \<^verbatim>\<open>parse_errors\<close>; with \<^verbatim>\<open>enable_stats\<close> off
  \<^verbatim>\<open>parse_errors\<close> stays 0.
\<close>

theorem short_payload_other_state_counterexample:
  "payload_len (ptr_of (example_frame 0x08 0x00 0x30 0x39 0 35 (replicate 27 0x41))) = 27
   \<and> packets_received (stats_m
        (DPDKReceiver_new Config_default False \<lparr>ring_records = [], ring_capacity = 4\<rparr>)) = 0
   \<and> packets_received (stats_m (process_packet try_publish 7
        (ptr_of (example_frame 0x08 0x00 0x30 0x39 0 35 (replicate 27 0x41)))
        (DPDKReceiver_new Config_default False \<lparr>ring_records = [], ring_capacity = 4\<rparr>))) = 1
   \<and> sequence_m
        (DPDKReceiver_new Config_default False \<lparr>ring_records = [], ring_capacity = 4\<rparr>) = 0
   \<and> sequence_m (process_packet try_publish 7
        (ptr_of (example_frame 0x08 0x00 0x30 0x39 0 35 (replicate 27 0x41)))
        (DPDKReceiver_new Config_default False \<lparr>ring_records = [], ring_capacity = 4\<rparr>)) = 1
   \<and> parse_errors (stats_m (process_packet try_publish 7
        (ptr_of (example_frame 0x08 0x00 0x30 0x39 0 35 (replicate 27 0x41)))
        (DPDKReceiver_new (Config_default\<lparr>enable_stats := False\<rparr>) False
          \<lparr>ring_records = [], ring_capacity = 4\<rparr>))) = 0"
proof -
  let ?pkt = "ptr_of (example_frame 0x08 0x00 0x30 0x39 0 35 (replicate 27 0x41))"
  let ?r = "\<lparr>ring_records = [], ring_capacity = 4\<rparr>"
  have f: "be16 ?pkt 12 = RTE_ETHER_TYPE_IPV4" "next_proto_id ?pkt = IPPROTO_UDP"
    "payload_len ?pkt < BBO_MIN_SIZE"
    by (simp_all add: frame_eval short_frame_eval RTE_ETHER_TYPE_IPV4_def IPPROTO_UDP_def
        BBO_MIN_SIZE_def)
  have q1: "be16 ?pkt (udp_offset ?pkt + 2)
      = udp_port (config_m (DPDKReceiver_new Config_default False ?r))"
    by (simp add: frame_eval DPDKReceiver_new_def Config_default_def)
  have q2: "be16 ?pkt (udp_offset ?pkt + 2)
      = udp_port (config_m
          (DPDKReceiver_new (Config_default\<lparr>enable_stats := False\<rparr>) False ?r))"
    by (simp add: frame_eval DPDKReceiver_new_def Config_default_def)
  note s1 = process_packet_short [OF f(1,2) q1 f(3), of try_publish 7]
  note s2 = process_packet_short [OF f(1,2) q2 f(3), of try_publish 7]
  show ?thesis
    by (simp only: s1 s2 short_frame_eval) (simp add: DPDKReceiver_new_def Config_default_def)
qed

section \<open>Datagram lengths below the UDP header size\<close>

text \<open>
  C9. The payload length is the 16-bit big-endian \<^verbatim>\<open>dgram_len\<close> minus 8 in unsigned 64-bit
  arithmetic. For every frame that passes the filters and whose \<^verbatim>\<open>dgram_len\<close> decodes to less
  than 8, the payload length wraps around to \<open>2^64 - 8 + dgram_len\<close>, which is at least 44;
  the parse does not return the null sentinel; and the record it fills, which is the one
  in the receiver's pool after \<^verbatim>\<open>process_packet\<close>, has \<open>valid = 1\<close> and the hardware-timestamp
  flag as its flags. The receiver's pool holds its 1024 records.
\<close>

theorem short_dgram_len_wraps:
  fixes tp :: "'r \<Rightarrow> gateway_BBOData \<Rightarrow> bool \<times> 'r" and ts :: u64 and pkt :: ptr
    and st :: "'r DPDKReceiver"
  assumes "be16 pkt 12 = RTE_ETHER_TYPE_IPV4" "next_proto_id pkt = IPPROTO_UDP"
    "be16 pkt (udp_offset pkt + 2) = udp_port (config_m st)"
    "be16 pkt (udp_offset pkt + 4) < 8"
    "length (pool_m (bbo_pool_m st)) = RECEIVER_POOL_SIZE"
  defines "res \<equiv> parse RECEIVER_POOL_SIZE (payload pkt) (payload_len pkt) (bbo_pool_m st) ts
      (sequence_m st)"
  shows "unat (payload_len pkt) = 2 ^ 64 - 8 + unat (be16 pkt (udp_offset pkt + 4))
    \<and> 44 \<le> payload_len pkt
    \<and> fst res \<noteq> None
    \<and> map_option (\<lambda>r. (valid r, flags r)) (deref res) = Some (1, HAS_FPGA_TIMESTAMPS)
    \<and> bbo_pool_m (process_packet tp ts pkt st) = snd res"
proof -
  note w = payload_len_wrap [OF assms(4)]
  from w(2) have m: "\<not> payload_len pkt < BBO_MIN_SIZE" and f: "BBO_FULL_SIZE \<le> payload_len pkt"
    by (simp_all add: BBO_MIN_SIZE_def BBO_FULL_SIZE_def not_less word_le_nat_alt)
  have n: "0 < RECEIVER_POOL_SIZE" "RECEIVER_POOL_SIZE < 2 ^ 64"
    by (simp_all add: RECEIVER_POOL_SIZE_def)
  have "fst res \<noteq> None"
    unfolding res_def using m by (simp add: parse_accept)
  moreover have "map_option (\<lambda>r. (valid r, flags r)) (deref res)
      = Some (1, HAS_FPGA_TIMESTAMPS)"
    unfolding res_def using f by (simp add: deref_parse_accept [OF m n assms(5)])
  moreover have "bbo_pool_m (process_packet tp ts pkt st) = snd res"
    unfolding res_def by (simp add: process_packet_accept [OF assms(1-3) m])
  ultimately show ?thesis using w by simp
qed

text \<open>An IPv4/UDP frame to the configured port whose \<^verbatim>\<open>dgram_len\<close> field is 0.\<close>

theorem short_dgram_len_wraps_witness:
  "be16 (ptr_of (example_frame 0x08 0x00 0x30 0x39 0 0 [])) 38 = 0
   \<and> unat (payload_len (ptr_of (example_frame 0x08 0x00 0x30 0x39 0 0 []))) = 2 ^ 64 - 8
   \<and> 44 \<le> payload_len (ptr_of (example_frame 0x08 0x00 0x30 0x39 0 0 []))
   \<and> map_option (\<lambda>r. (valid r, flags r))
        (deref (parse RECEIVER_POOL_SIZE
          (payload (ptr_of (example_frame 0x08 0x00 0x30 0x39 0 0 [])))
          (payload_len (ptr_of (example_frame 0x08 0x00 0x30 0x39 0 0 [])))
          (BBOPool_new RECEIVER_POOL_SIZE False) 7 0))
       = Some (1, HAS_FPGA_TIMESTAMPS)
   \<and> bbo_pool_m (process_packet try_publish 7
        (ptr_of (example_frame 0x08 0x00 0x30 0x39 0 0 []))
        (DPDKReceiver_new Config_default False \<lparr>ring_records = [], ring_capacity = 4\<rparr>))
      = snd (parse RECEIVER_POOL_SIZE
          (payload (ptr_of (example_frame 0x08 0x00 0x30 0x39 0 0 [])))
          (payload_len (ptr_of (example_frame 0x08 0x00 0x30 0x39 0 0 [])))
          (BBOPool_new RECEIVER_POOL_SIZE False) 7 0)"
  using short_dgram_len_wraps [of "ptr_of (example_frame 0x08 0x00 0x30 0x39 0 0 [])"
      "DPDKReceiver_new Config_default False \<lparr>ring_records = [], ring_capacity = 4\<rparr>"
      7 try_publish]
  by (simp add: frame_eval RTE_ETHER_TYPE_IPV4_def IPPROTO_UDP_def DPDKReceiver_new_def
      Config_default_def length_BBOPool_new)

section \<open>The minimal parse scenario\<close>

text \<open>
  C1. For the literal 28-byte payload
  \<^verbatim>\<open>41 41 50 4C 20 20 20 20 00 16 E3 60 00 00 00 64 00 16 E5 A0 00 00 00 64 00 00 27 10\<close>, on every
  pool that holds its \<open>N\<close> records, \<^verbatim>\<open>parse\<close> succeeds and the record has the trimmed symbol
  \<^verbatim>\<open>"AAPL"\<close>, bid price 150.0000, 100 bid shares, ask price 150.0576 (the double nearest to
  it: the wire bytes \<^verbatim>\<open>00 16 E5 A0\<close> are 1500576), 100 ask shares, spread 1.0000, \<open>valid = 1\<close> and
  \<open>flags = 0\<close>.
\<close>

theorem minimal_parse:
  fixes N :: nat and p :: BBOPool and ts :: u64 and sq :: u32
  assumes "0 < N" "N < 2 ^ 64" "length (pool_m p) = N"
  defines "r \<equiv> deref (parse N (ptr_of minimal_payload) 28 p ts sq)"
  shows "length minimal_payload = 28
    \<and> map_option get_symbol r = Some (map of_char ''AAPL'')
    \<and> map_option bid_price r = Some 150
    \<and> map_option bid_shares r = Some 100
    \<and> map_option ask_price r = Some (5279682433157117 / 2 ^ 45)
    \<and> \<bar>5279682433157117 / 2 ^ 45 - 1500576 / 10000\<bar> \<le> (1 / 2 ^ 46 :: rat)
    \<and> map_option ask_shares r = Some 100
    \<and> map_option spread r = Some 1
    \<and> map_option valid r = Some 1
    \<and> map_option flags r = Some 0"
proof -
  have m: "\<not> (28::u64) < BBO_MIN_SIZE" "\<not> BBO_FULL_SIZE \<le> (28::u64)"
    by (simp_all add: BBO_MIN_SIZE_def BBO_FULL_SIZE_def)
  note d = deref_parse_accept [OF m(1) assms(1-3), of "ptr_of minimal_payload" ts sq]
  have g: "map_option get_symbol r = Some (map of_char ''AAPL'')"
    unfolding r_def d
    by (simp add: get_symbol_prefix [where xs = "[0x41, 0x41, 0x50, 0x4C, 0x20, 0x20, 0x20, 0x20]"]
        memcpy_def minimal_symbol strip_trailing_spaces_nuls_def)
  have "length minimal_payload = 28" by (simp add: minimal_payload_def)
  moreover have "\<bar>5279682433157117 / 2 ^ 45 - 1500576 / 10000\<bar> \<le> (1 / 2 ^ 46 :: rat)"
    by simp
  ultimately show ?thesis
    using g unfolding r_def d
    by (simp add: m minimal_loads mul_PRICE_MULTIPLIER_1500000 mul_PRICE_MULTIPLIER_1500576
        mul_PRICE_MULTIPLIER_10000)
qed

theorem minimal_parse_witness:
  "(0::nat) < 1024 \<and> (1024::nat) < 2 ^ 64 \<and> length (pool_m (BBOPool_new 1024 False)) = 1024
   \<and> map_option get_symbol (deref (parse 1024 (ptr_of minimal_payload) 28 (BBOPool_new 1024 False) 7 0))
       = Some (map of_char ''AAPL'')
   \<and> map_option bid_price (deref (parse 1024 (ptr_of minimal_payload) 28 (BBOPool_new 1024 False) 7 0))
       = Some 150
   \<and> map_option ask_price (deref (parse 1024 (ptr_of minimal_payload) 28 (BBOPool_new 1024 False) 7 0))
       = Some (5279682433157117 / 2 ^ 45)
   \<and> map_option flags (deref (parse 1024 (ptr_of minimal_payload) 28 (BBOPool_new 1024 False) 7 0))
       = Some 0"
  using minimal_parse [of 1024 "BBOPool_new 1024 False" 7 0]
  by (simp add: length_BBOPool_new)

text \<open>
  The ask price of the record is the double nearest to 150.0576; it is more than 0.04 away
  from 150.1.
\<close>

theorem minimal_parse_ask_counterexample:
  "map_option ask_price (deref (parse 1024 (ptr_of minimal_payload) 28 (BBOPool_new 1024 False) 7 0))
       = Some (5279682433157117 / 2 ^ 45)
   \<and> (1 / 25 :: rat) < \<bar>5279682433157117 / 2 ^ 45 - 1501 / 10\<bar>"
proof -
  have m: "\<not> (28::u64) < BBO_MIN_SIZE"
    by (simp add: BBO_MIN_SIZE_def)
  have n: "(0::nat) < 1024" "(1024::nat) < 2 ^ 64" "length (pool_m (BBOPool_new 1024 False)) = 1024"
    by (simp_all add: length_BBOPool_new)
  show ?thesis
    unfolding deref_parse_accept [OF m n]
    by (simp add: minimal_loads mul_PRICE_MULTIPLIER_1500576)
qed

section \<open>The publisher\<close>

text \<open>
  C5. \<^verbatim>\<open>convert_and_publish\<close> widens the 8-byte symbol to the consumer's 16-byte
  field by padding with spaces and writing a NUL into the last byte, copies prices, shares,
  spread, timestamp and validity, zeroes every hardware-timestamp field, and calls the
  ring's \<^verbatim>\<open>try_publish\<close> once: the ring is left as that one call leaves it. It returns
  nothing. When \<^verbatim>\<open>try_publish\<close> returns false and \<^verbatim>\<open>enable_stats\<close> is set, \<^verbatim>\<open>ring_buffer_full\<close>
  grows by 1; otherwise no counter changes. Nothing else of the receiver changes.
\<close>

theorem convert_and_publish_effect:
  "convert_and_publish tp fast st =
     \<lparr>config_m = config_m st,
      stats_m = (if \<not> fst (tp (ring_buffer_m st) (convert fast)) \<and> enable_stats (config_m st)
        then (stats_m st)\<lparr>ring_buffer_full := ring_buffer_full (stats_m st) + 1\<rparr>
        else stats_m st),
      bbo_pool_m = bbo_pool_m st,
      ring_buffer_m = snd (tp (ring_buffer_m st) (convert fast)),
      sequence_m = sequence_m st\<rparr>
   \<and> (length (symbol fast) = 8 \<longrightarrow>
        gw_symbol (convert fast) = symbol fast @ replicate 7 0x20 @ [0])
   \<and> gw_bid_price (convert fast) = bid_price fast
   \<and> gw_ask_price (convert fast) = ask_price fast
   \<and> gw_bid_shares (convert fast) = bid_shares fast
   \<and> gw_ask_shares (convert fast) = ask_shares fast
   \<and> gw_spread (convert fast) = spread fast
   \<and> gw_timestamp_ns (convert fast) = timestamp_ns fast
   \<and> gw_valid (convert fast) = (valid fast \<noteq> 0)
   \<and> gw_fpga_ts_t1 (convert fast) = 0 \<and> gw_fpga_ts_t2 (convert fast) = 0
   \<and> gw_fpga_ts_t3 (convert fast) = 0 \<and> gw_fpga_ts_t4 (convert fast) = 0
   \<and> gw_fpga_latency_a_us (convert fast) = 0 \<and> gw_fpga_latency_b_us (convert fast) = 0
   \<and> gw_fpga_latency_us (convert fast) = 0
   \<and> gw_fpga_rx_timestamp (convert fast) = 0 \<and> gw_fpga_tx_timestamp (convert fast) = 0"
proof -
  have "convert_and_publish tp fast st =
     \<lparr>config_m = config_m st,
      stats_m = (if \<not> fst (tp (ring_buffer_m st) (convert fast)) \<and> enable_stats (config_m st)
        then (stats_m st)\<lparr>ring_buffer_full := ring_buffer_full (stats_m st) + 1\<rparr>
        else stats_m st),
      bbo_pool_m = bbo_pool_m st,
      ring_buffer_m = snd (tp (ring_buffer_m st) (convert fast)),
      sequence_m = sequence_m st\<rparr>"
    by (simp add: convert_and_publish_def Let_def case_prod_beta)
  moreover have "length (symbol fast) = 8 \<longrightarrow>
        gw_symbol (convert fast) = symbol fast @ replicate 7 0x20 @ [0]"
    by (simp add: gw_symbol_convert)
  ultimately show ?thesis
    by (simp add: convert_def Let_def)
qed

theorem convert_and_publish_effect_witness:
  "length (symbol (clear\<lparr>symbol := map of_char ''AAPL    ''\<rparr>)) = 8
   \<and> gw_symbol (convert (clear\<lparr>symbol := map of_char ''AAPL    ''\<rparr>))
       = map of_char ''AAPL           '' @ [0]
   \<and> \<not> fst (try_publish \<lparr>ring_records = [], ring_capacity = 0\<rparr>
             (convert (clear\<lparr>symbol := map of_char ''AAPL    ''\<rparr>)))
   \<and> ring_buffer_full (stats_m (convert_and_publish try_publish
        (clear\<lparr>symbol := map of_char ''AAPL    ''\<rparr>)
        (DPDKReceiver_new Config_default False \<lparr>ring_records = [], ring_capacity = 0\<rparr>))) = 1
   \<and> ring_records (ring_buffer_m (convert_and_publish try_publish
        (clear\<lparr>symbol := map of_char ''AAPL    ''\<rparr>)
        (DPDKReceiver_new Config_default False \<lparr>ring_records = [], ring_capacity = 4\<rparr>)))
       = [convert (clear\<lparr>symbol := map of_char ''AAPL    ''\<rparr>)]"
  using convert_and_publish_effect [of try_publish "clear\<lparr>symbol := map of_char ''AAPL    ''\<rparr>"
      "DPDKReceiver_new Config_default False \<lparr>ring_records = [], ring_capacity = 0\<rparr>"]
    convert_and_publish_effect [of try_publish "clear\<lparr>symbol := map of_char ''AAPL    ''\<rparr>"
      "DPDKReceiver_new Config_default False \<lparr>ring_records = [], ring_capacity = 4\<rparr>"]
  by (simp add: try_publish_def DPDKReceiver_new_def Config_default_def replicate_7)

text \<open>
  With \<^verbatim>\<open>enable_stats\<close> off and a full ring, \<^verbatim>\<open>try_publish\<close> returns false and \<^verbatim>\<open>ring_buffer_full\<close>
  stays 0.
\<close>

theorem convert_and_publish_no_stats_counterexample:
  "\<not> fst (try_publish \<lparr>ring_records = [], ring_capacity = 0\<rparr> (convert clear))
   \<and> ring_buffer_full (stats_m
        (DPDKReceiver_new (Config_default\<lparr>enable_stats := False\<rparr>) False
          \<lparr>ring_records = [], ring_capacity = 0\<rparr>)) = 0
   \<and> ring_buffer_full (stats_m (convert_and_publish try_publish clear
        (DPDKReceiver_new (Config_default\<lparr>enable_stats := False\<rparr>) False
          \<lparr>ring_records = [], ring_capacity = 0\<rparr>))) = 0"
  by (simp add: convert_and_publish_def try_publish_def DPDKReceiver_new_def Config_default_def
      Let_def)

section \<open>Warm-up packets\<close>

text \<open>
  C10. Every warm-up packet that \<^verbatim>\<open>create_dummy_packet\<close> delivers passes the
  filters with a 44-byte payload and runs through the whole of \<^verbatim>\<open>process_packet\<close> (one
  iteration of \<^verbatim>\<open>warm_dpdk_path\<close> is that call). It consumes one sequence number and one pool
  slot; the record in that slot has the symbol \<^verbatim>\<open>"WARMUP  "\<close>, \<open>valid = 1\<close> and flags equal to
  \<^verbatim>\<open>HAS_FPGA_TIMESTAMPS\<close>, so its \<^verbatim>\<open>IS_SYNTHETIC\<close> bit is clear; the record is converted and
  handed to the ring's \<^verbatim>\<open>try_publish\<close> once, the ring being left as that call leaves it; the
  converted record does not depend on the flags at all, so no flag tells the consumer that
  it is synthetic. When \<^verbatim>\<open>enable_stats\<close> is set, \<^verbatim>\<open>packets_received\<close> and
  \<^verbatim>\<open>packets_processed\<close> grow by 1 (and \<^verbatim>\<open>ring_buffer_full\<close> by 1 if \<^verbatim>\<open>try_publish\<close> returns
  false); otherwise no counter changes. The receiver's pool holds its 1024 records.
\<close>

theorem warm_up_packet_processed:
  fixes tp :: "'r \<Rightarrow> gateway_BBOData \<Rightarrow> bool \<times> 'r" and ts :: u64 and st :: "'r DPDKReceiver"
  assumes wf: "length (pool_m (bbo_pool_m st)) = RECEIVER_POOL_SIZE"
    and cr: "create_dummy_packet (config_m st) True = Some dummy"
  defines "st' \<equiv> process_packet tp ts (ptr_of dummy) st"
  defines "r \<equiv> pool_m (bbo_pool_m st') ! fst (acquire RECEIVER_POOL_SIZE (bbo_pool_m st))"
  shows "length dummy = 86
    \<and> payload_len (ptr_of dummy) = 44
    \<and> warm_dpdk_path tp [(True, ts)] st = st'
    \<and> sequence_m st' = sequence_m st + 1
    \<and> head_m (bbo_pool_m st') = head_m (bbo_pool_m st) + 1
    \<and> sequence r = sequence_m st \<and> timestamp_ns r = ts \<and> valid r = 1
    \<and> flags r = HAS_FPGA_TIMESTAMPS \<and> flags r AND IS_SYNTHETIC = 0
    \<and> take 8 (symbol r) = map of_char ''WARMUP  ''
    \<and> bid_price r = 150 \<and> bid_shares r = 100 \<and> ask_price r = 150 \<and> ask_shares r = 100
    \<and> spread r = 3602879701896397 / 2 ^ 55
    \<and> ring_buffer_m st' = snd (tp (ring_buffer_m st) (convert r))
    \<and> gw_symbol (convert r) = map of_char ''WARMUP  '' @ replicate 7 0x20 @ [0]
    \<and> (\<forall>f. convert (r\<lparr>flags := f\<rparr>) = convert r)
    \<and> stats_m st' =
        (if enable_stats (config_m st)
         then \<lparr>packets_received = packets_received (stats_m st) + 1,
               packets_processed = packets_processed (stats_m st) + 1,
               packets_dropped = packets_dropped (stats_m st),
               parse_errors = parse_errors (stats_m st),
               ring_buffer_full = ring_buffer_full (stats_m st)
                 + (if fst (tp (ring_buffer_m st) (convert r)) then 0 else 1)\<rparr>
         else stats_m st)"
proof -
  let ?pkt = "ptr_of dummy"
  let ?res = "parse RECEIVER_POOL_SIZE (payload ?pkt) (payload_len ?pkt) (bbo_pool_m st) ts
      (sequence_m st)"
  let ?idx = "fst (acquire RECEIVER_POOL_SIZE (bbo_pool_m st))"
  note h = dummy_header [OF cr]
  have port: "be16 ?pkt (udp_offset ?pkt + 2) = udp_port (config_m st)"
    by (simp add: h(4) dummy_port [OF cr])
  have len: "payload_len ?pkt = 44"
    by (rule dummy_payload_len [OF cr])
  have m: "\<not> payload_len ?pkt < BBO_MIN_SIZE" and f: "BBO_FULL_SIZE \<le> payload_len ?pkt"
    by (simp_all add: len BBO_MIN_SIZE_def BBO_FULL_SIZE_def)
  have n: "0 < RECEIVER_POOL_SIZE" "RECEIVER_POOL_SIZE < 2 ^ 64"
    by (simp_all add: RECEIVER_POOL_SIZE_def)
  note pa = process_packet_accept [OF h(2,3) port m, of tp ts]
  have lt: "?idx < length (pool_m (bbo_pool_m st))"
    using acquire_fst_lt [OF n] wf by simp
  have pool: "bbo_pool_m st' = snd ?res"
    unfolding st'_def by (simp add: pa)
  have r: "Some r = deref ?res"
    unfolding r_def pool using lt by (simp add: parse_accept [OF m] deref_def)
  note d = deref_parse_accept [OF m n wf, of "payload ?pkt" ts "sequence_m st"]
  have rec: "sequence r = sequence_m st \<and> timestamp_ns r = ts \<and> valid r = 1
    \<and> flags r = HAS_FPGA_TIMESTAMPS
    \<and> bid_price r = 150 \<and> bid_shares r = 100 \<and> ask_price r = 150 \<and> ask_shares r = 100
    \<and> spread r = 3602879701896397 / 2 ^ 55"
    using r unfolding d
    by (auto simp add: f dummy_payload [OF cr] mul_PRICE_MULTIPLIER_1500000
        mul_PRICE_MULTIPLIER_1000)
  have sy: "symbol r = map of_char ''WARMUP  '' @ drop 8 (symbol (pool_m (bbo_pool_m st) ! ?idx))"
    using r unfolding d
    by (auto simp add: memcpy_def dummy_payload(1) [OF cr])
  then have t8: "take 8 (symbol r) = map of_char ''WARMUP  ''"
    by simp
  have l8: "8 \<le> length (symbol r)"
    by (simp add: sy)
  have gs: "gw_symbol (convert r) = map of_char ''WARMUP  '' @ replicate 7 0x20 @ [0]"
    using gw_symbol_convert_take [OF l8] by (simp only: t8)
  have w: "warm_dpdk_path tp [(True, ts)] st = st'"
    by (simp add: cr st'_def)
  have r': "pool_m (snd ?res) ! ?idx = r"
    unfolding r_def pool ..
  have st: "sequence_m st' = sequence_m st + 1"
    "ring_buffer_m st' = snd (tp (ring_buffer_m st) (convert r))"
    "stats_m st' =
        (if enable_stats (config_m st)
         then \<lparr>packets_received = packets_received (stats_m st) + 1,
               packets_processed = packets_processed (stats_m st) + 1,
               packets_dropped = packets_dropped (stats_m st),
               parse_errors = parse_errors (stats_m st),
               ring_buffer_full = ring_buffer_full (stats_m st)
                 + (if fst (tp (ring_buffer_m st) (convert r)) then 0 else 1)\<rparr>
         else stats_m st)"
    unfolding st'_def pa r' by simp_all
  have hd: "head_m (bbo_pool_m st') = head_m (bbo_pool_m st) + 1"
    unfolding pool by (simp add: parse_accept [OF m])
  have sf: "flags r AND IS_SYNTHETIC = 0"
    using rec by (simp add: HAS_FPGA_TIMESTAMPS_def IS_SYNTHETIC_def)
  show ?thesis
    using h(1) len w st hd rec sf t8 gs by (simp add: convert_flags)
qed

theorem warm_up_packet_processed_witness:
  "length (pool_m (bbo_pool_m
      (DPDKReceiver_new Config_default False \<lparr>ring_records = [], ring_capacity = 4\<rparr>)))
     = RECEIVER_POOL_SIZE
   \<and> create_dummy_packet Config_default True \<noteq> None
   \<and> length (the (create_dummy_packet Config_default True)) = 86
   \<and> sequence_m (process_packet try_publish 7
        (ptr_of (the (create_dummy_packet Config_default True)))
        (DPDKReceiver_new Config_default False \<lparr>ring_records = [], ring_capacity = 4\<rparr>)) = 1
   \<and> packets_received (stats_m (process_packet try_publish 7
        (ptr_of (the (create_dummy_packet Config_default True)))
        (DPDKReceiver_new Config_default False \<lparr>ring_records = [], ring_capacity = 4\<rparr>))) = 1
   \<and> packets_processed (stats_m (process_packet try_publish 7
        (ptr_of (the (create_dummy_packet Config_default True)))
        (DPDKReceiver_new Config_default False \<lparr>ring_records = [], ring_capacity = 4\<rparr>))) = 1
   \<and> flags (pool_m (bbo_pool_m (process_packet try_publish 7
        (ptr_of (the (create_dummy_packet Config_default True)))
        (DPDKReceiver_new Config_default False \<lparr>ring_records = [], ring_capacity = 4\<rparr>))) ! 0)
       = HAS_FPGA_TIMESTAMPS
   \<and> map gw_symbol (ring_records (ring_buffer_m (process_packet try_publish 7
        (ptr_of (the (create_dummy_packet Config_default True)))
        (DPDKReceiver_new Config_default False \<lparr>ring_records = [], ring_capacity = 4\<rparr>))))
       = [map of_char ''WARMUP  '' @ replicate 7 0x20 @ [0]]"
proof -
  let ?st = "DPDKReceiver_new Config_default False \<lparr>ring_records = [], ring_capacity = 4\<rparr>"
  let ?d = "the (create_dummy_packet Config_default True)"
  have wf: "length (pool_m (bbo_pool_m ?st)) = RECEIVER_POOL_SIZE"
    by (simp add: DPDKReceiver_new_def length_BBOPool_new)
  have cr: "create_dummy_packet (config_m ?st) True = Some ?d"
    by (simp add: DPDKReceiver_new_def dummy_bytes)
  have i0: "fst (acquire RECEIVER_POOL_SIZE (bbo_pool_m ?st)) = 0"
    by (simp add: DPDKReceiver_new_def acquire_fst_head head_BBOPool_new RECEIVER_POOL_SIZE_def)
  have s0: "sequence_m ?st = 0" "stats_m ?st = \<lparr>packets_received = 0, packets_processed = 0,
      packets_dropped = 0, parse_errors = 0, ring_buffer_full = 0\<rparr>"
    "enable_stats (config_m ?st)" "ring_buffer_m ?st = \<lparr>ring_records = [], ring_capacity = 4\<rparr>"
    by (simp_all add: DPDKReceiver_new_def Config_default_def)
  note t = warm_up_packet_processed [OF wf cr, of try_publish 7, unfolded i0 s0]
  have ne: "create_dummy_packet Config_default True \<noteq> None"
    by (simp add: dummy_bytes)
  from t wf ne show ?thesis
    by (simp add: try_publish_def s0)
qed

text \<open>
  A warm-up packet on a receiver with \<^verbatim>\<open>enable_stats\<close> off and a full ring: it consumes a
  sequence number, but no counter moves and the ring holds what it held before.
\<close>

theorem warm_up_packet_no_stats_full_ring_counterexample:
  "sequence_m (process_packet try_publish 7
        (ptr_of (the (create_dummy_packet (Config_default\<lparr>enable_stats := False\<rparr>) True)))
        (DPDKReceiver_new (Config_default\<lparr>enable_stats := False\<rparr>) False
          \<lparr>ring_records = [convert clear, convert clear], ring_capacity = 2\<rparr>)) = 1
   \<and> stats_m (process_packet try_publish 7
        (ptr_of (the (create_dummy_packet (Config_default\<lparr>enable_stats := False\<rparr>) True)))
        (DPDKReceiver_new (Config_default\<lparr>enable_stats := False\<rparr>) False
          \<lparr>ring_records = [convert clear, convert clear], ring_capacity = 2\<rparr>))
      = \<lparr>packets_received = 0, packets_processed = 0, packets_dropped = 0, parse_errors = 0,
         ring_buffer_full = 0\<rparr>
   \<and> ring_buffer_m (process_packet try_publish 7
        (ptr_of (the (create_dummy_packet (Config_default\<lparr>enable_stats := False\<rparr>) True)))
        (DPDKReceiver_new (Config_default\<lparr>enable_stats := False\<rparr>) False
          \<lparr>ring_records = [convert clear, convert clear], ring_capacity = 2\<rparr>))
      = \<lparr>ring_records = [convert clear, convert clear], ring_capacity = 2\<rparr>"
proof -
  let ?cfg = "Config_default\<lparr>enable_stats := False\<rparr>"
  let ?st = "DPDKReceiver_new ?cfg False \<lparr>ring_records = [convert clear, convert clear], ring_capacity = 2\<rparr>"
  let ?d = "the (create_dummy_packet ?cfg True)"
  let ?pkt = "ptr_of ?d"
  have cr: "create_dummy_packet ?cfg True = Some ?d"
    by (simp add: dummy_bytes)
  note h = dummy_header [OF cr]
  have port: "be16 ?pkt (udp_offset ?pkt + 2) = udp_port (config_m ?st)"
    by (simp add: h(4) dummy_port [OF cr] DPDKReceiver_new_def)
  have m: "\<not> payload_len ?pkt < BBO_MIN_SIZE"
    by (simp add: dummy_payload_len [OF cr] BBO_MIN_SIZE_def)
  note pa = process_packet_accept [OF h(2,3) port m, of try_publish 7]
  have s0: "sequence_m ?st = 0" "stats_m ?st = \<lparr>packets_received = 0, packets_processed = 0,
      packets_dropped = 0, parse_errors = 0, ring_buffer_full = 0\<rparr>"
    "\<not> enable_stats (config_m ?st)"
    "ring_buffer_m ?st = \<lparr>ring_records = [convert clear, convert clear], ring_capacity = 2\<rparr>"
    by (simp_all add: DPDKReceiver_new_def Config_default_def)
  show ?thesis
    unfolding pa s0 by (simp add: s0 try_publish_full)
qed

end
